theory Spec2Isabelle
  imports Main "HOL-Library.Multiset" "HOL-Library.Word"
begin

section \<open>Python values and exceptions\<close>

text \<open>
  The program is \<^verbatim>\<open>openconnect-gp-okta.py\<close>. Every \<^verbatim>\<open>raise\<close>, failed
  \<^verbatim>\<open>assert\<close> and failing library call of the source is a value of \<open>error\<close>; a
  function that can raise returns \<open>error + 'a\<close> with \<open>Inl\<close> for the exception.
  \<open>Exception s\<close> is the source's \<^verbatim>\<open>raise Exception(s)\<close>.
\<close>

datatype error =
    KeyError
  | TypeError
  | ValueError
  | AssertionError
  | AttributeError
  | HTTPError
  | ConnectionError
  | MissingSchema
  | UnicodeEncodeError
  | JSONDecodeError
  | ParserError
  | Base64Error
  | Abort
  | ClientError
  | Exception string

definition bindE :: "error + 'a \<Rightarrow> ('a \<Rightarrow> error + 'b) \<Rightarrow> error + 'b" where
  "bindE m f = (case m of Inl e \<Rightarrow> Inl e | Inr x \<Rightarrow> f x)"

text \<open>A list comprehension whose element expression can raise: the first failure wins.\<close>

fun mapE :: "('a \<Rightarrow> error + 'b) \<Rightarrow> 'a list \<Rightarrow> error + 'b list" where
  "mapE f [] = Inr []"
| "mapE f (x # xs) = bindE (f x) (\<lambda>y. bindE (mapE f xs) (\<lambda>ys. Inr (y # ys)))"

text \<open>
  What \<^verbatim>\<open>r.json()\<close> returns: a JSON document as Python reads it. An object
  is the list of its members in document order (a parsed \<^verbatim>\<open>dict\<close>, so each key
  once); \<open>JNull\<close> is Python's \<^verbatim>\<open>None\<close>.
\<close>

datatype json =
    JNull
  | JBool bool
  | JInt int
  | JStr string
  | JList "json list"
  | JObj "(string \<times> json) list"

text \<open>
  \<^verbatim>\<open>v[k]\<close> for a string key \<open>k\<close>: a missing key of a dict raises KeyError, and
  every other value raises TypeError (a list or a string wants an integer index, the
  rest is not subscriptable).
\<close>

fun subscript :: "json \<Rightarrow> string \<Rightarrow> error + json" where
  "subscript (JObj kvs) k = (case map_of kvs k of None \<Rightarrow> Inl KeyError | Some v \<Rightarrow> Inr v)"
| "subscript _ k = Inl TypeError"

text \<open>
  Iterating over a value, as \<^verbatim>\<open>sorted(v, ...)\<close> and a comprehension do: a list
  gives its elements, a dict its keys, a string its characters; nothing else is
  iterable.
\<close>

fun iter :: "json \<Rightarrow> error + json list" where
  "iter (JList xs) = Inr xs"
| "iter (JObj kvs) = Inr (map (\<lambda>(k, v). JStr k) kvs)"
| "iter (JStr s) = Inr (map (\<lambda>c. JStr [c]) s)"
| "iter _ = Inl TypeError"

text \<open>
  \<^verbatim>\<open>sorted(xs, key=key, reverse=True)\<close>: the keys are computed once, in order;
  the sort is stable, and with \<^verbatim>\<open>reverse=True\<close> elements with equal keys still
  keep their original order. \<open>sort_key\<close> is the stable insertion sort of the list
  library, here on the negated key.
\<close>

definition sorted_reverse :: "('a \<Rightarrow> error + int) \<Rightarrow> 'a list \<Rightarrow> error + 'a list" where
  "sorted_reverse key xs =
     bindE (mapE key xs) (\<lambda>ks. Inr (map snd (sort_key (\<lambda>(k, x). - k) (zip ks xs))))"

text \<open>
  The key's value where the key function returns one, and the order the sort is
  meant to produce: \<open>a\<close> may stand before \<open>b\<close> when the key of \<open>a\<close> is at least
  the key of \<open>b\<close>.
\<close>

definition key_of :: "('a \<Rightarrow> error + int) \<Rightarrow> 'a \<Rightarrow> int" where
  "key_of key x = (case key x of Inr k \<Rightarrow> k | Inl e \<Rightarrow> 0)"

definition not_before :: "('a \<Rightarrow> error + int) \<Rightarrow> 'a \<Rightarrow> 'a \<Rightarrow> bool" where
  "not_before key a b =
     (case (key a, key b) of (Inr p, Inr q) \<Rightarrow> q \<le> p | _ \<Rightarrow> False)"

section \<open>Factor priorities\<close>

text \<open>
  \<^verbatim>\<open>dict(pairs)\<close>: the pairs are stored in order, a later pair replacing an
  earlier one with the same key.
\<close>

definition dict :: "(string \<times> int) list \<Rightarrow> (string \<rightharpoonup> int)" where
  "dict pairs = fold (\<lambda>(k, v) m. m(k \<mapsto> v)) pairs Map.empty"

text \<open>
  \<^verbatim>\<open>main\<close>, lines 321 to 324:
  \<^verbatim>\<open>
    factor_priorities = {
        'token:software:totp': 0 if totp_key is None else 2,
        'push': 1,
        **dict(factor_priorities)}
  \<close>
  The argument \<open>overrides\<close> is the tuple of (type, priority) pairs collected from the
  command line and the configuration file.
\<close>

definition main_factor_priorities :: "string option \<Rightarrow> (string \<times> int) list \<Rightarrow> (string \<rightharpoonup> int)" where
  "main_factor_priorities totp_key overrides =
     [''token:software:totp'' \<mapsto> (if totp_key = None then 0 else 2), ''push'' \<mapsto> 1]
       ++ dict overrides"

text \<open>
  \<^verbatim>\<open>okta_auth\<close>, lines 138 and 139:
  \<^verbatim>\<open>
    def priority(factor):
        return factor_priorities.get(factor['factorType'], 0)
  \<close>
  The keys of the dict are strings. A list or a dict as the key is unhashable
  (TypeError); null, a boolean or a number is hashable and is no key of the dict.
\<close>

definition priority :: "(string \<rightharpoonup> int) \<Rightarrow> json \<Rightarrow> error + int" where
  "priority fp factor =
     bindE (subscript factor ''factorType'') (\<lambda>t.
       case t of
         JStr s \<Rightarrow> Inr (case fp s of None \<Rightarrow> 0 | Some p \<Rightarrow> p)
       | JList _ \<Rightarrow> Inl TypeError
       | JObj _ \<Rightarrow> Inl TypeError
       | _ \<Rightarrow> Inr 0)"

section \<open>Base64, as the standard library and fido2.utils do it\<close>

type_synonym byte = "8 word"
type_synonym bytes = "byte list"

text \<open>
  \<^verbatim>\<open>base64.b64encode\<close> (RFC 4648, with padding): three bytes make four
  characters of the alphabet; one or two bytes left over make two or three
  characters and the padding. The shifts and masks of the C code are written as
  division and remainder.
\<close>

definition alphabet :: string where
  "alphabet = ''ABCDEFGHIJKLMNOPQRSTUVWXYZabcdefghijklmnopqrstuvwxyz0123456789+/''"

definition b2a :: "nat \<Rightarrow> char" where
  "b2a n = alphabet ! n"

fun b64encode :: "bytes \<Rightarrow> string" where
  "b64encode [] = []"
| "b64encode [a] =
     [b2a (unat a div 4), b2a (unat a mod 4 * 16), CHR ''='', CHR ''='']"
| "b64encode [a, b] =
     [b2a (unat a div 4), b2a (unat a mod 4 * 16 + unat b div 16),
      b2a (unat b mod 16 * 4), CHR ''='']"
| "b64encode (a # b # c # rest) =
     [b2a (unat a div 4), b2a (unat a mod 4 * 16 + unat b div 16),
      b2a (unat b mod 16 * 4 + unat c div 64), b2a (unat c mod 64)] @ b64encode rest"

fun index_of :: "'a \<Rightarrow> 'a list \<Rightarrow> nat option" where
  "index_of c [] = None"
| "index_of c (x # xs) = (if c = x then Some 0 else map_option Suc (index_of c xs))"

definition a2b :: "char \<Rightarrow> nat option" where
  "a2b c = index_of c alphabet"

text \<open>
  \<^verbatim>\<open>base64.b64decode\<close> in its default, lenient mode, which is the loop of
  \<^verbatim>\<open>binascii.a2b_base64\<close>: a character outside the alphabet is skipped; a
  padding character ends the input once the current group holds at least two
  characters and the padding completes it; input that ends inside a group is an
  error. \<open>quad_pos\<close>, \<open>leftchar\<close>, \<open>pads\<close> and \<open>bin_data\<close> are the loop's variables.
\<close>

fun a2b_base64 :: "nat \<Rightarrow> nat \<Rightarrow> nat \<Rightarrow> bytes \<Rightarrow> string \<Rightarrow> error + bytes" where
  "a2b_base64 quad_pos leftchar pads bin_data [] =
     (if quad_pos \<noteq> 0 then Inl Base64Error else Inr bin_data)"
| "a2b_base64 quad_pos leftchar pads bin_data (this_ch # rest) =
     (if this_ch = CHR ''='' then
        (if quad_pos \<ge> 2 \<and> quad_pos + (pads + 1) \<ge> 4 then Inr bin_data
         else a2b_base64 quad_pos leftchar (if quad_pos \<ge> 2 then pads + 1 else pads) bin_data rest)
      else
        (case a2b this_ch of
           None \<Rightarrow> a2b_base64 quad_pos leftchar pads bin_data rest
         | Some v \<Rightarrow>
             (if quad_pos = 0 then
                a2b_base64 1 v 0 bin_data rest
              else if quad_pos = 1 then
                a2b_base64 2 (v mod 16) 0 (bin_data @ [of_nat (leftchar * 4 + v div 16)]) rest
              else if quad_pos = 2 then
                a2b_base64 3 (v mod 4) 0 (bin_data @ [of_nat (leftchar * 16 + v div 4)]) rest
              else
                a2b_base64 0 0 0 (bin_data @ [of_nat (leftchar * 64 + v)]) rest)))"

definition b64decode :: "string \<Rightarrow> error + bytes" where
  "b64decode s = a2b_base64 0 0 0 [] s"

text \<open>A \<^verbatim>\<open>str\<close> argument is first encoded as ASCII, which fails on any other character.\<close>

definition is_ascii :: "string \<Rightarrow> bool" where
  "is_ascii s = list_all (\<lambda>c. (of_char c :: nat) < 128) s"

definition b64decode_str :: "string \<Rightarrow> error + bytes" where
  "b64decode_str s = (if is_ascii s then b64decode s else Inl ValueError)"

text \<open>
  The URL-safe variant translates \<open>+\<close> and \<open>/\<close> to \<open>-\<close> and \<open>_\<close> after encoding,
  and back before decoding.
\<close>

definition urlsafe_encode_translation :: "char \<Rightarrow> char" where
  "urlsafe_encode_translation c =
     (if c = CHR ''+'' then CHR ''-'' else if c = CHR ''/'' then CHR ''_'' else c)"

definition urlsafe_decode_translation :: "char \<Rightarrow> char" where
  "urlsafe_decode_translation c =
     (if c = CHR ''-'' then CHR ''+'' else if c = CHR ''_'' then CHR ''/'' else c)"

definition urlsafe_b64encode :: "bytes \<Rightarrow> string" where
  "urlsafe_b64encode s = map urlsafe_encode_translation (b64encode s)"

definition urlsafe_b64decode :: "string \<Rightarrow> error + bytes" where
  "urlsafe_b64decode s = b64decode (map urlsafe_decode_translation s)"

text \<open>
  \<^verbatim>\<open>fido2.utils\<close>:
  \<^verbatim>\<open>
    def websafe_encode(data):
        return urlsafe_b64encode(data).replace(b"=", b"").decode("ascii")

    def websafe_decode(data):
        if isinstance(data, str):
            data = data.encode("ascii")
        data += b"=" * (-len(data) % 4)
        return urlsafe_b64decode(data)
  \<close>
\<close>

definition websafe_encode :: "bytes \<Rightarrow> string" where
  "websafe_encode data = filter (\<lambda>c. c \<noteq> CHR ''='') (urlsafe_b64encode data)"

definition websafe_decode :: "string \<Rightarrow> error + bytes" where
  "websafe_decode data =
     (if is_ascii data then
        urlsafe_b64decode (data @ replicate ((4 - length data mod 4) mod 4) (CHR ''=''))
      else Inl UnicodeEncodeError)"

text \<open>
  \<^verbatim>\<open>OktaWebauthn.okta_verify\<close>, lines 95 to 100. The argument is a field of the
  assertion, a \<^verbatim>\<open>bytes\<close> object of the authenticator library; \<open>obj\<close> is its bytes.
  \<^verbatim>\<open>
    def b64(obj):
        return base64.b64encode(websafe_decode(websafe_encode(obj))).decode('ascii')
  \<close>
\<close>

definition b64 :: "bytes \<Rightarrow> error + string" where
  "b64 obj = bindE (websafe_decode (websafe_encode obj)) (\<lambda>bs. Inr (b64encode bs))"

section \<open>The world the program talks to\<close>

text \<open>
  The HTTP transport, the terminal and the USB bus are scripted: each call takes the
  next entry of its script. The transcript records, in order, every call of
  \<^verbatim>\<open>s.post\<close> and \<^verbatim>\<open>s.get\<close>, every response that came back, and every
  \<^verbatim>\<open>click.echo\<close>, \<^verbatim>\<open>click.prompt\<close> and \<^verbatim>\<open>click.confirm\<close>.

  A response body is given as the document the program's parser makes of it
  (\<^verbatim>\<open>r.json()\<close>, \<^verbatim>\<open>lxml.etree.fromstring\<close>); a body of another kind is one the
  parser rejects. An XML document is the list of its root's children (tag, text);
  an HTML document is its first \<^verbatim>\<open>form\<close> element, if any, with the
  \<^verbatim>\<open>action\<close> attribute and the \<^verbatim>\<open>name\<close> and \<^verbatim>\<open>value\<close> attributes of its
  \<^verbatim>\<open>input\<close> children.
\<close>

record form =
  action :: "string option"
  inputs :: "(string option \<times> string option) list"

datatype content =
    JsonDoc json
  | XmlDoc "(string \<times> string option) list"
  | HtmlDoc "form option"
  | Unparsed

record response =
  ok :: bool
  content :: content
  headers :: "string \<rightharpoonup> string"

text \<open>What one call of the transport does: it raises, or it returns a response.\<close>

datatype outcome = Raises error | Returns response

datatype payload =
    NoData
  | JsonData json
  | FormData "(string \<times> string) list"
  | Params "(string \<times> json) list"

text \<open>
  \<open>Echo\<close> and \<open>Prompt\<close> hold the format string and its arguments, so that no
  \<^verbatim>\<open>str()\<close> of a JSON value needs a model.
\<close>

datatype event =
    Post string payload
  | Get string payload
  | Received response
  | Echo string "json list"
  | Prompt string "json list"
  | Confirm string

type_synonym device = nat

record world =
  server :: "outcome list"
  answers :: "string list"
  confirms :: "bool list"
  hid :: "device option list"
  transcript :: "event list"

type_synonym 'a io = "world \<Rightarrow> (error + 'a) \<times> world"

definition returnIO :: "'a \<Rightarrow> 'a io" where
  "returnIO x = (\<lambda>w. (Inr x, w))"

definition raiseIO :: "error \<Rightarrow> 'a io" where
  "raiseIO e = (\<lambda>w. (Inl e, w))"

definition liftE :: "error + 'a \<Rightarrow> 'a io" where
  "liftE m = (\<lambda>w. (m, w))"

definition bindIO :: "'a io \<Rightarrow> ('a \<Rightarrow> 'b io) \<Rightarrow> 'b io" where
  "bindIO m f = (\<lambda>w. case m w of (Inl e, w') \<Rightarrow> (Inl e, w') | (Inr x, w') \<Rightarrow> f x w')"

text \<open>
  One call of the transport. With the script used up the connection fails. A
  response is recorded when it arrives, whatever its status.
\<close>

definition request :: "event \<Rightarrow> response io" where
  "request ev w =
     (case server w of
        [] \<Rightarrow> (Inl ConnectionError, w\<lparr>transcript := transcript w @ [ev]\<rparr>)
      | Raises e # rest \<Rightarrow> (Inl e, w\<lparr>server := rest, transcript := transcript w @ [ev]\<rparr>)
      | Returns resp # rest \<Rightarrow>
          (Inr resp, w\<lparr>server := rest, transcript := transcript w @ [ev, Received resp]\<rparr>))"

text \<open>
  \<^verbatim>\<open>s.post(url, ...)\<close> and \<^verbatim>\<open>s.get(url, ...)\<close>. A URL taken from a JSON
  document may be any value; one that is not a string has no scheme, and requests
  raises before anything is sent.
\<close>

definition s_post :: "json \<Rightarrow> payload \<Rightarrow> response io" where
  "s_post url data =
     (case url of JStr u \<Rightarrow> request (Post u data) | _ \<Rightarrow> raiseIO MissingSchema)"

definition s_get :: "json \<Rightarrow> payload \<Rightarrow> response io" where
  "s_get url params =
     (case url of JStr u \<Rightarrow> request (Get u params) | _ \<Rightarrow> raiseIO MissingSchema)"

text \<open>
  \<^verbatim>\<open>click.echo\<close>, \<^verbatim>\<open>click.prompt\<close> and \<^verbatim>\<open>click.confirm\<close>; at the end of the
  input click raises \<^verbatim>\<open>Abort\<close>.
\<close>

definition echo :: "string \<Rightarrow> json list \<Rightarrow> unit io" where
  "echo message args w = (Inr (), w\<lparr>transcript := transcript w @ [Echo message args]\<rparr>)"

definition prompt :: "string \<Rightarrow> json list \<Rightarrow> string io" where
  "prompt text args w =
     (case answers w of
        [] \<Rightarrow> (Inl Abort, w\<lparr>transcript := transcript w @ [Prompt text args]\<rparr>)
      | a # rest \<Rightarrow>
          (Inr a, w\<lparr>answers := rest, transcript := transcript w @ [Prompt text args]\<rparr>))"

definition confirm :: "string \<Rightarrow> bool io" where
  "confirm text w =
     (case confirms w of
        [] \<Rightarrow> (Inl Abort, w\<lparr>transcript := transcript w @ [Confirm text]\<rparr>)
      | a # rest \<Rightarrow>
          (Inr a, w\<lparr>confirms := rest, transcript := transcript w @ [Confirm text]\<rparr>))"

text \<open>\<^verbatim>\<open>next(list_devices(), None)\<close>: the first suitable device now attached, if any.\<close>

definition list_devices :: "world \<Rightarrow> device option \<times> world" where
  "list_devices w = (case hid w of [] \<Rightarrow> (None, w) | d # rest \<Rightarrow> (d, w\<lparr>hid := rest\<rparr>))"

text \<open>
  Lines 112 to 114 and 128 to 131:
  \<^verbatim>\<open>
    def check(r):
        r.raise_for_status()
        return r

    def post_json(s, url, data):
        r = check(s.post(url, data=json.dumps(data),
            headers={'Content-Type': 'application/json'}))
        return r.json()
  \<close>
\<close>

definition check :: "response \<Rightarrow> response io" where
  "check r = (if ok r then returnIO r else raiseIO HTTPError)"

definition json_of :: "response \<Rightarrow> error + json" where
  "json_of r = (case content r of JsonDoc j \<Rightarrow> Inr j | _ \<Rightarrow> Inl JSONDecodeError)"

definition post_json :: "json \<Rightarrow> json \<Rightarrow> json io" where
  "post_json url data =
     bindIO (s_post url (JsonData data)) (\<lambda>r.
     bindIO (check r) (\<lambda>r.
     liftE (json_of r)))"

section \<open>The factor negotiator\<close>

text \<open>
  Lines 143 to 157, the push factor:
  \<^verbatim>\<open>
    url = factor['_links']['verify']['href']
    correct_answer = None
    while True:
        r = post_json(s, url, {'stateToken': r['stateToken']})
        if r['status'] != 'MFA_CHALLENGE':
            break
        assert r['factorResult'] == 'WAITING'
        if correct_answer is None:
            try:
                correct_answer = r["_embedded"]["factor"]["_embedded"]["challenge"]["correctAnswer"]
                click.echo(f"Correct 3-number answer is: {correct_answer}")
            except KeyError:
                pass
    break
  \<close>
  \<open>push_loop\<close> is the \<^verbatim>\<open>while\<close> loop; it returns the last response. Every
  turn takes one entry of the server's script, which is what ends the recursion.
\<close>

lemma request_server:
  "request ev w = (Inr resp, w') \<Longrightarrow> length (server w') < length (server w)"
  by (auto simp: request_def split: list.splits outcome.splits)

lemma post_json_server:
  "post_json url data w = (Inr r, w') \<Longrightarrow> length (server w') < length (server w)"
  by (auto simp: post_json_def bindIO_def s_post_def check_def returnIO_def raiseIO_def liftE_def
      split: json.splits prod.splits sum.splits if_splits dest: request_server)

lemma echo_server: "server (snd (echo message args w)) = server w"
  by (simp add: echo_def)

lemma push_request_server:
  "bindIO (liftE (subscript r ''stateToken'')) (\<lambda>tok. post_json url (f tok)) w = (Inr r', w')
     \<Longrightarrow> length (server w') < length (server w)"
  by (auto simp: bindIO_def liftE_def split: sum.splits prod.splits dest: post_json_server)

function push_loop :: "json \<Rightarrow> json \<Rightarrow> json \<Rightarrow> world \<Rightarrow> (error + json) \<times> world" where
  "push_loop url r correct_answer w =
     (case bindIO (liftE (subscript r ''stateToken'')) (\<lambda>tok.
             post_json url (JObj [(''stateToken'', tok)])) w of
        (Inl e, w') \<Rightarrow> (Inl e, w')
      | (Inr r', w') \<Rightarrow>
          (case subscript r' ''status'' of
             Inl e \<Rightarrow> (Inl e, w')
           | Inr status \<Rightarrow>
               if status \<noteq> JStr ''MFA_CHALLENGE'' then (Inr r', w')
               else
                 (case subscript r' ''factorResult'' of
                    Inl e \<Rightarrow> (Inl e, w')
                  | Inr factorResult \<Rightarrow>
                      if factorResult \<noteq> JStr ''WAITING'' then (Inl AssertionError, w')
                      else if correct_answer \<noteq> JNull then push_loop url r' correct_answer w'
                      else
                        (case bindE (subscript r' ''_embedded'') (\<lambda>e.
                               bindE (subscript e ''factor'') (\<lambda>f.
                               bindE (subscript f ''_embedded'') (\<lambda>e.
                               bindE (subscript e ''challenge'') (\<lambda>c.
                               subscript c ''correctAnswer'')))) of
                           Inr answer \<Rightarrow>
                             push_loop url r' answer
                               (snd (echo ''Correct 3-number answer is: {}'' [answer] w'))
                         | Inl KeyError \<Rightarrow> push_loop url r' correct_answer w'
                         | Inl e \<Rightarrow> (Inl e, w')))))"
  by pat_completeness auto
termination
  by (relation "measure (\<lambda>(url, r, correct_answer, w). length (server w))")
     (auto simp: echo_server
           dest!: push_request_server [where f = "\<lambda>tok. JObj [(''stateToken'', tok)]", OF sym])

declare push_loop.simps [simp del]

text \<open>
  \<^verbatim>\<open>OktaWebauthn.get_device\<close>, lines 61 to 70. The result is the device found,
  which \<^verbatim>\<open>okta_verify\<close> then reads from \<^verbatim>\<open>self._device\<close>; the method's own
  result is whether there is one.
  \<^verbatim>\<open>
    self._device = next(list_devices(), None)
    while self._device is None:
        click.echo("Please insert a suitable device if you wish to continue with webauthn MFA.")
        if click.confirm("Continue with webauthn MFA?"):
            self._device = next(list_devices(), None)
        else:
            click.echo("Falling back to other MFA method.")
            break
    return self._device is not None
  \<close>
\<close>

function get_device_loop :: "device option \<Rightarrow> world \<Rightarrow> (error + device option) \<times> world" where
  "get_device_loop device w =
     (case device of
        Some d \<Rightarrow> (Inr (Some d), w)
      | None \<Rightarrow>
          (case bindIO (echo ''Please insert a suitable device if you wish to continue with webauthn MFA.'' [])
                  (\<lambda>_. confirm ''Continue with webauthn MFA?'') w of
             (Inl e, w') \<Rightarrow> (Inl e, w')
           | (Inr True, w') \<Rightarrow> (case list_devices w' of (d, w'') \<Rightarrow> get_device_loop d w'')
           | (Inr False, w') \<Rightarrow>
               bindIO (echo ''Falling back to other MFA method.'' []) (\<lambda>_. returnIO None) w'))"
  by pat_completeness auto
termination
  by (relation "measure (\<lambda>(device, w). length (confirms w))")
     (auto simp: bindIO_def echo_def confirm_def list_devices_def split: list.splits)

declare get_device_loop.simps [simp del]

definition get_device :: "device option io" where
  "get_device w = (case list_devices w of (d, w') \<Rightarrow> get_device_loop d w')"

text \<open>
  The libraries the program calls are parameters, collected in \<open>env\<close>.
  \<open>Fido2Client\<close> is the constructor of the authenticator client (\<open>Some e\<close> when it
  raises \<open>e\<close>) and \<open>get_assertion\<close> is
  \<^verbatim>\<open>fido_client.get_assertion(pubkey_req).get_response(0)\<close>; \<open>totp_now\<close> is
  \<^verbatim>\<open>pyotp.TOTP(key).now()\<close>, which reads the clock; \<open>HTMLParser\<close> is the
  document lxml's HTML parser makes of a byte string; \<open>urlencode\<close> is
  \<^verbatim>\<open>urllib.parse.urlencode\<close> and \<open>netloc\<close> is
  \<^verbatim>\<open>urllib.parse.urlparse(url).netloc\<close>.
\<close>

record pubkey_req =
  challenge :: bytes
  rpId :: string
  allowCredentials :: "bytes list"

record assertion =
  authenticatorData :: bytes
  clientData :: bytes
  signature :: bytes

record env =
  HAS_FIDO2 :: bool
  totp_now :: "string \<Rightarrow> error + string"
  Fido2Client :: "device \<Rightarrow> string \<Rightarrow> error option"
  get_assertion :: "device \<Rightarrow> string \<Rightarrow> pubkey_req \<Rightarrow> error + assertion"
  HTMLParser :: "bytes \<Rightarrow> content"
  urlencode :: "(string \<times> string) list \<Rightarrow> string"
  netloc :: "string \<Rightarrow> error + string"

text \<open>
  \<^verbatim>\<open>OktaWebauthn.okta_verify\<close>, lines 72 to 109.
  \<^verbatim>\<open>
    url = self.WEBAUTHN_URL_TEMPLATE.format(domain)
    r = post_json(session, url, {'stateToken': stateToken})
    assert r['status'] == 'MFA_CHALLENGE'
    fido_client = Fido2Client(self._device, "https://{}".format(domain), ...)
    pubkey_req = {
        "challenge": websafe_decode(r['_embedded']['challenge']['challenge']),
        "rpId": domain,
        'allowCredentials': [
            {'type': 'public-key', 'id': websafe_decode(f['profile']['credentialId'])}
            for f in r['_embedded']['factors']]}
    assertion = fido_client.get_assertion(pubkey_req).get_response(0)
    next_url = r['_links']['next']['href']
    payload = {
        'authenticatorData': b64(assertion['authenticatorData']),
        'clientData': b64(assertion['clientData']),
        'signatureData': b64(assertion['signature']),
        'stateToken': r["stateToken"]}
    return post_json(session, next_url, payload)
  \<close>
\<close>

definition websafe_decode_json :: "json \<Rightarrow> error + bytes" where
  "websafe_decode_json v = (case v of JStr s \<Rightarrow> websafe_decode s | _ \<Rightarrow> Inl TypeError)"

definition make_pubkey_req :: "string \<Rightarrow> json \<Rightarrow> error + pubkey_req" where
  "make_pubkey_req domain r =
     bindE (subscript r ''_embedded'') (\<lambda>e.
     bindE (subscript e ''challenge'') (\<lambda>c.
     bindE (subscript c ''challenge'') (\<lambda>c.
     bindE (websafe_decode_json c) (\<lambda>chal.
     bindE (subscript r ''_embedded'') (\<lambda>e.
     bindE (subscript e ''factors'') (\<lambda>fs.
     bindE (iter fs) (\<lambda>fs.
     bindE (mapE (\<lambda>f. bindE (subscript f ''profile'') (\<lambda>p.
                       bindE (subscript p ''credentialId'') websafe_decode_json)) fs) (\<lambda>ids.
     Inr \<lparr>challenge = chal, rpId = domain, allowCredentials = ids\<rparr>))))))))"

definition assertion_payload :: "assertion \<Rightarrow> json \<Rightarrow> error + json" where
  "assertion_payload a r =
     bindE (b64 (authenticatorData a)) (\<lambda>ad.
     bindE (b64 (clientData a)) (\<lambda>cd.
     bindE (b64 (signature a)) (\<lambda>sg.
     bindE (subscript r ''stateToken'') (\<lambda>tok.
     Inr (JObj [(''authenticatorData'', JStr ad), (''clientData'', JStr cd),
                (''signatureData'', JStr sg), (''stateToken'', tok)])))))"

definition okta_verify :: "env \<Rightarrow> device \<Rightarrow> string \<Rightarrow> json \<Rightarrow> json io" where
  "okta_verify env device domain stateToken =
     bindIO (post_json (JStr (''https://'' @ domain @ ''/api/v1/authn/factors/webauthn/verify''))
               (JObj [(''stateToken'', stateToken)])) (\<lambda>r.
     bindIO (liftE (subscript r ''status'')) (\<lambda>status.
     if status \<noteq> JStr ''MFA_CHALLENGE'' then raiseIO AssertionError
     else
       (case Fido2Client env device (''https://'' @ domain) of
          Some e \<Rightarrow> raiseIO e
        | None \<Rightarrow>
            bindIO (liftE (make_pubkey_req domain r)) (\<lambda>pubkey_req.
            bindIO (liftE (get_assertion env device (''https://'' @ domain) pubkey_req)) (\<lambda>a.
            bindIO (liftE (bindE (subscript r ''_links'') (\<lambda>l.
                           bindE (subscript l ''next'') (\<lambda>n. subscript n ''href'')))) (\<lambda>next_url.
            bindIO (liftE (assertion_payload a r)) (\<lambda>payload.
            post_json next_url payload)))))))"

text \<open>\<^verbatim>\<open>factor['_links']['verify']['href']\<close>\<close>

definition verify_href :: "json \<Rightarrow> error + json" where
  "verify_href factor =
     bindE (subscript factor ''_links'') (\<lambda>l.
     bindE (subscript l ''verify'') (\<lambda>v. subscript v ''href''))"

text \<open>
  \<^verbatim>\<open>re.match('token(?::|$)', factor['factorType'])\<close>: the type is \<open>token\<close>, or
  starts with \<open>token:\<close>; \<open>$\<close> also matches before a final newline. A value that is
  not a string is a TypeError.
\<close>

definition re_match_token :: "json \<Rightarrow> error + bool" where
  "re_match_token v =
     (case v of
        JStr s \<Rightarrow> Inr (s = ''token'' \<or> s = ''token'' @ [CHR 0x0A] \<or> take 6 s = ''token:'')
      | _ \<Rightarrow> Inl TypeError)"

text \<open>
  The \<^verbatim>\<open>for\<close> loop of \<^verbatim>\<open>okta_auth\<close>, lines 142 to 182, over the sorted
  factors. \<open>r\<close> is the response in hand and \<open>ignore_webauthn\<close> the loop's flag. A
  branch that ends in \<^verbatim>\<open>break\<close> returns the response it got; \<^verbatim>\<open>continue\<close>
  and a factor that no branch takes go on with the rest of the list; the
  \<^verbatim>\<open>else\<close> of the loop raises. \<^verbatim>\<open>OktaWebauthn()\<close> asserts \<open>HAS_FIDO2\<close>.
\<close>

definition prompt_code :: "json \<Rightarrow> string io" where
  "prompt_code factor =
     bindIO (liftE (subscript factor ''provider'')) (\<lambda>provider.
     bindIO (liftE (subscript factor ''vendorName'')) (\<lambda>vendorName.
     prompt ''One-time code for {} ({})'' [provider, vendorName]))"

fun factor_loop :: "env \<Rightarrow> string \<Rightarrow> string option \<Rightarrow> bool \<Rightarrow> json \<Rightarrow> json list \<Rightarrow> json io" where
  "factor_loop env domain totp_key ignore_webauthn r [] =
     raiseIO (Exception ''No supported authentication factors'')"
| "factor_loop env domain totp_key ignore_webauthn r (factor # rest) =
     bindIO (liftE (subscript factor ''factorType'')) (\<lambda>factorType.
     if factorType = JStr ''push'' then
       bindIO (liftE (verify_href factor)) (\<lambda>url. push_loop url r JNull)
     else if factorType = JStr ''sms'' then
       bindIO (liftE (verify_href factor)) (\<lambda>url.
       bindIO (liftE (subscript r ''stateToken'')) (\<lambda>tok.
       bindIO (post_json url (JObj [(''stateToken'', tok)])) (\<lambda>r.
       bindIO (liftE (subscript r ''status'')) (\<lambda>status.
       if status \<noteq> JStr ''MFA_CHALLENGE'' then raiseIO AssertionError
       else
         bindIO (prompt ''SMS code'' []) (\<lambda>code.
         bindIO (liftE (subscript r ''stateToken'')) (\<lambda>tok.
         post_json url (JObj [(''stateToken'', tok), (''passCode'', JStr code)])))))))
     else if factorType = JStr ''webauthn'' \<and> \<not> ignore_webauthn then
       (if \<not> HAS_FIDO2 env then raiseIO AssertionError
        else
          bindIO get_device (\<lambda>device.
          case device of
            Some d \<Rightarrow>
              bindIO (liftE (subscript r ''stateToken'')) (\<lambda>tok. okta_verify env d domain tok)
          | None \<Rightarrow> factor_loop env domain totp_key True r rest))
     else
       bindIO (liftE (re_match_token factorType)) (\<lambda>matched.
       if matched then
         bindIO (liftE (verify_href factor)) (\<lambda>url.
         bindIO (if factorType = JStr ''token:software:totp'' \<and> totp_key \<noteq> None
                 then liftE (totp_now env (the totp_key))
                 else prompt_code factor) (\<lambda>code.
         bindIO (liftE (subscript r ''stateToken'')) (\<lambda>tok.
         post_json url (JObj [(''stateToken'', tok), (''passCode'', JStr code)]))))
       else factor_loop env domain totp_key ignore_webauthn r rest))"

text \<open>
  \<^verbatim>\<open>okta_auth\<close>, lines 133 to 187.
  \<^verbatim>\<open>
    r = post_json(s, 'https://{}/api/v1/authn'.format(domain),
        {'username': username, 'password': password})
    if r['status'] == 'MFA_REQUIRED':
        ...
        ignore_webauthn = not HAS_FIDO2
        for factor in sorted(r['_embedded']['factors'], key=priority, reverse=True):
            ...
        else:
            raise Exception('No supported authentication factors')
    if r['status'] == 'LOCKED_OUT':
        raise Exception('Locked out of Okta!')
    assert r['status'] == 'SUCCESS'
    return r['sessionToken']
  \<close>
  \<open>session_token\<close> is the last three lines.
\<close>

definition session_token :: "json \<Rightarrow> error + json" where
  "session_token r =
     bindE (subscript r ''status'') (\<lambda>status.
     if status = JStr ''LOCKED_OUT'' then Inl (Exception ''Locked out of Okta!'')
     else if status \<noteq> JStr ''SUCCESS'' then Inl AssertionError
     else subscript r ''sessionToken'')"

definition okta_auth ::
  "env \<Rightarrow> string \<Rightarrow> string \<Rightarrow> string \<Rightarrow> (string \<rightharpoonup> int) \<Rightarrow> string option \<Rightarrow> json io" where
  "okta_auth env domain username password factor_priorities totp_key =
     bindIO (post_json (JStr (''https://'' @ domain @ ''/api/v1/authn''))
               (JObj [(''username'', JStr username), (''password'', JStr password)])) (\<lambda>r.
     bindIO (liftE (subscript r ''status'')) (\<lambda>status.
     bindIO (if status = JStr ''MFA_REQUIRED'' then
               bindIO (liftE (bindE (subscript r ''_embedded'') (\<lambda>e.
                              bindE (subscript e ''factors'') (\<lambda>fs.
                              bindE (iter fs) (sorted_reverse (priority factor_priorities)))))) (\<lambda>factors.
               factor_loop env domain totp_key (\<not> HAS_FIDO2 env) r factors)
             else returnIO r) (\<lambda>r.
     liftE (session_token r))))"

section \<open>The SAML flow\<close>

text \<open>
  A dict comprehension: a later pair with the same key replaces the value and keeps
  the key's place.
\<close>

fun dict_update :: "string \<Rightarrow> string \<Rightarrow> (string \<times> string) list \<Rightarrow> (string \<times> string) list" where
  "dict_update k v [] = [(k, v)]"
| "dict_update k v (p # ps) = (if fst p = k then (k, v) # ps else p # dict_update k v ps)"

definition dict_items :: "(string \<times> string) list \<Rightarrow> (string \<times> string) list" where
  "dict_items pairs = fold (\<lambda>(k, v) d. dict_update k v d) pairs []"

text \<open>
  Lines 116 to 119. \<^verbatim>\<open>find\<close> gives \<^verbatim>\<open>None\<close> for a document without a form,
  and a missing attribute is a KeyError.
  \<^verbatim>\<open>
    def extract_form(html):
        form = lxml.etree.fromstring(html, lxml.etree.HTMLParser()).find('.//form')
        return (form.attrib['action'],
            {inp.attrib['name']: inp.attrib['value'] for inp in form.findall('input')})
  \<close>
\<close>

definition attrib :: "string option \<Rightarrow> error + string" where
  "attrib a = (case a of None \<Rightarrow> Inl KeyError | Some v \<Rightarrow> Inr v)"

definition extract_form :: "content \<Rightarrow> error + string \<times> (string \<times> string) list" where
  "extract_form html =
     (case html of
        HtmlDoc None \<Rightarrow> Inl AttributeError
      | HtmlDoc (Some form) \<Rightarrow>
          bindE (attrib (action form)) (\<lambda>a.
          bindE (mapE (\<lambda>(name, val). bindE (attrib name) (\<lambda>n.
                                      bindE (attrib val) (\<lambda>v. Inr (n, v)))) (inputs form)) (\<lambda>pairs.
          Inr (a, dict_items pairs)))
      | _ \<Rightarrow> Inl ParserError)"

text \<open>
  Lines 121 to 126.
  \<^verbatim>\<open>
    def prelogin(s, gateway):
        r = check(s.post('https://{}/ssl-vpn/prelogin.esp'.format(gateway)))
        saml_req_html = base64.b64decode(lxml.etree.fromstring(r.content).find('saml-request').text)
        saml_req_url, saml_req_data = extract_form(saml_req_html)
        assert 'SAMLRequest' in saml_req_data
        return saml_req_url + '?' + urllib.parse.urlencode(saml_req_data)
  \<close>
\<close>

definition saml_request_text :: "response \<Rightarrow> error + string" where
  "saml_request_text r =
     (case content r of
        XmlDoc children \<Rightarrow>
          (case map_of children ''saml-request'' of
             None \<Rightarrow> Inl AttributeError
           | Some None \<Rightarrow> Inl TypeError
           | Some (Some text) \<Rightarrow> Inr text)
      | _ \<Rightarrow> Inl ParserError)"

definition prelogin :: "env \<Rightarrow> string \<Rightarrow> string io" where
  "prelogin env gateway =
     bindIO (s_post (JStr (''https://'' @ gateway @ ''/ssl-vpn/prelogin.esp'')) NoData) (\<lambda>r.
     bindIO (check r) (\<lambda>r.
     bindIO (liftE (bindE (saml_request_text r) b64decode_str)) (\<lambda>saml_req_html.
     bindIO (liftE (extract_form (HTMLParser env saml_req_html))) (\<lambda>(saml_req_url, saml_req_data).
     if ''SAMLRequest'' \<notin> set (map fst saml_req_data) then raiseIO AssertionError
     else returnIO (saml_req_url @ ''?'' @ urlencode env saml_req_data)))))"

text \<open>
  Lines 189 to 205.
  \<^verbatim>\<open>
    def okta_saml(s, saml_req_url, username, password, factor_priorities, totp_key):
        domain = urllib.parse.urlparse(saml_req_url).netloc
        check(s.get(saml_req_url))
        token = okta_auth(s, domain, username, password, factor_priorities, totp_key)
        r = check(s.get('https://{}/login/sessionCookieRedirect'.format(domain),
            params={'token': token, 'redirectUrl': saml_req_url}))
        saml_resp_url, saml_resp_data = extract_form(r.content)
        assert 'SAMLResponse' in saml_resp_data
        return saml_resp_url, saml_resp_data

    def complete_saml(s, saml_resp_url, saml_resp_data):
        r = check(s.post(saml_resp_url, data=saml_resp_data))
        return r.headers['saml-username'], r.headers['prelogin-cookie']
  \<close>
\<close>

definition okta_saml ::
  "env \<Rightarrow> string \<Rightarrow> string \<Rightarrow> string \<Rightarrow> (string \<rightharpoonup> int) \<Rightarrow> string option
     \<Rightarrow> (string \<times> (string \<times> string) list) io" where
  "okta_saml env saml_req_url username password factor_priorities totp_key =
     bindIO (liftE (netloc env saml_req_url)) (\<lambda>domain.
     bindIO (bindIO (s_get (JStr saml_req_url) NoData) check) (\<lambda>_.
     bindIO (okta_auth env domain username password factor_priorities totp_key) (\<lambda>token.
     bindIO (bindIO (s_get (JStr (''https://'' @ domain @ ''/login/sessionCookieRedirect''))
                       (Params [(''token'', token), (''redirectUrl'', JStr saml_req_url)])) check) (\<lambda>r.
     bindIO (liftE (extract_form (content r))) (\<lambda>(saml_resp_url, saml_resp_data).
     if ''SAMLResponse'' \<notin> set (map fst saml_resp_data) then raiseIO AssertionError
     else returnIO (saml_resp_url, saml_resp_data))))))"

definition header :: "response \<Rightarrow> string \<Rightarrow> error + string" where
  "header r name = (case headers r name of None \<Rightarrow> Inl KeyError | Some v \<Rightarrow> Inr v)"

definition complete_saml :: "string \<Rightarrow> (string \<times> string) list \<Rightarrow> (string \<times> string) io" where
  "complete_saml saml_resp_url saml_resp_data =
     bindIO (bindIO (s_post (JStr saml_resp_url) (FormData saml_resp_data)) check) (\<lambda>r.
     bindIO (liftE (header r ''saml-username'')) (\<lambda>saml_username.
     bindIO (liftE (header r ''prelogin-cookie'')) (\<lambda>prelogin_cookie.
     returnIO (saml_username, prelogin_cookie))))"

text \<open>
  \<^verbatim>\<open>main\<close>, lines 326 to 330: the flow controller.
  \<^verbatim>\<open>
    with requests.Session() as s:
        s.mount('https://', TLSAdapter())
        saml_req_url = prelogin(s, gateway)
        saml_resp_url, saml_resp_data = okta_saml(s, saml_req_url, username, password,
                                                  factor_priorities, totp_key)
        saml_username, prelogin_cookie = complete_saml(s, saml_resp_url, saml_resp_data)
  \<close>
\<close>

definition main_session ::
  "env \<Rightarrow> string \<Rightarrow> string \<Rightarrow> string \<Rightarrow> (string \<rightharpoonup> int) \<Rightarrow> string option
     \<Rightarrow> (string \<times> string) io" where
  "main_session env gateway username password factor_priorities totp_key =
     bindIO (prelogin env gateway) (\<lambda>saml_req_url.
     bindIO (okta_saml env saml_req_url username password factor_priorities totp_key)
       (\<lambda>(saml_resp_url, saml_resp_data).
     complete_saml saml_resp_url saml_resp_data))"

section \<open>Properties of transcripts\<close>

text \<open>The requests of a transcript, in order.\<close>

fun requests :: "event list \<Rightarrow> event list" where
  "requests [] = []"
| "requests (Post u d # es) = Post u d # requests es"
| "requests (Get u d # es) = Get u d # requests es"
| "requests (e # es) = requests es"

text \<open>
  A poll response that tells the program to keep polling: its status is
  \<open>MFA_CHALLENGE\<close> and its factor result is \<open>WAITING\<close>.
\<close>

definition waiting :: "response \<Rightarrow> bool" where
  "waiting resp =
     (case json_of resp of
        Inr j \<Rightarrow>
          subscript j ''status'' = Inr (JStr ''MFA_CHALLENGE'') \<and>
          subscript j ''factorResult'' = Inr (JStr ''WAITING'')
      | Inl e \<Rightarrow> False)"

text \<open>
  Every response that is followed by a further request is a waiting one; so after
  a response that is not, the transcript holds no request.
\<close>

fun polls_only_while_waiting :: "event list \<Rightarrow> bool" where
  "polls_only_while_waiting [] = True"
| "polls_only_while_waiting (Received resp # es) =
     ((requests es \<noteq> [] \<longrightarrow> waiting resp) \<and> polls_only_while_waiting es)"
| "polls_only_while_waiting (e # es) = polls_only_while_waiting es"

text \<open>A poll: a request to \<open>url\<close> that carries a state token and nothing else.\<close>

definition is_poll :: "json \<Rightarrow> event \<Rightarrow> bool" where
  "is_poll url e = (\<exists>u tok. url = JStr u \<and> e = Post u (JsonData (JObj [(''stateToken'', tok)])))"

text \<open>
  How the loop of \<open>okta_auth\<close> treats a factor, by its type alone. A factor is
  taken when its type is \<open>push\<close>, \<open>sms\<close> or of the token family: the loop runs
  its sub-protocol and ends. It is passed over when its type is a string that no
  branch takes: none of these, and not \<open>webauthn\<close> either unless the loop's flag
  \<open>ignore_webauthn\<close> is set. (A \<open>webauthn\<close> factor with the flag unset is
  neither: what the loop does with it depends on the device.)
\<close>

definition token_family :: "string \<Rightarrow> bool" where
  "token_family t = (t = ''token'' \<or> t = ''token'' @ [CHR 0x0A] \<or> take 6 t = ''token:'')"

definition taken :: "json \<Rightarrow> bool" where
  "taken factor =
     (case subscript factor ''factorType'' of
        Inr (JStr t) \<Rightarrow> t = ''push'' \<or> t = ''sms'' \<or> token_family t
      | _ \<Rightarrow> False)"

definition passed_over :: "bool \<Rightarrow> json \<Rightarrow> bool" where
  "passed_over ignore_webauthn factor =
     (case subscript factor ''factorType'' of
        Inr (JStr t) \<Rightarrow>
          t \<noteq> ''push'' \<and> t \<noteq> ''sms'' \<and> \<not> token_family t \<and>
          (t = ''webauthn'' \<longrightarrow> ignore_webauthn)
      | _ \<Rightarrow> False)"

text \<open>
  The state token a JSON document carries, if any, and the one a response carries.
\<close>

definition token_of :: "json \<Rightarrow> json option" where
  "token_of j = (case subscript j ''stateToken'' of Inr t \<Rightarrow> Some t | Inl e \<Rightarrow> None)"

definition response_token :: "response \<Rightarrow> json option" where
  "response_token resp = (case json_of resp of Inr j \<Rightarrow> token_of j | Inl e \<Rightarrow> None)"

text \<open>
  \<open>token_threaded latest es\<close>: every request of \<open>es\<close> is a JSON post whose state token
  is the one of the most recent response before it (\<open>latest\<close> for the requests before
  the first response of \<open>es\<close>), and that response did carry one.
\<close>

fun token_threaded :: "json option \<Rightarrow> event list \<Rightarrow> bool" where
  "token_threaded latest [] = True"
| "token_threaded latest (Received resp # es) = token_threaded (response_token resp) es"
| "token_threaded latest (Post u d # es) =
     ((case d of JsonData j \<Rightarrow> latest \<noteq> None \<and> token_of j = latest | _ \<Rightarrow> False)
      \<and> token_threaded latest es)"
| "token_threaded latest (Get u d # es) = False"
| "token_threaded latest (e # es) = token_threaded latest es"

text \<open>\<open>all_carry t es\<close>: every JSON post of \<open>es\<close> carries the one state token \<open>t\<close>.\<close>

definition all_carry :: "json option \<Rightarrow> event list \<Rightarrow> bool" where
  "all_carry t es =
     list_all (\<lambda>e. case e of Post u (JsonData j) \<Rightarrow> token_of j = t | _ \<Rightarrow> True) es"

text \<open>
  For the proofs: the token of the most recent response after \<open>es\<close>, and what it
  means for an action to thread the token, with a postcondition on its result and
  on the token then in force.
\<close>

fun final_token :: "json option \<Rightarrow> event list \<Rightarrow> json option" where
  "final_token latest [] = latest"
| "final_token latest (Received resp # es) = final_token (response_token resp) es"
| "final_token latest (e # es) = final_token latest es"

definition threads :: "json option \<Rightarrow> 'a io \<Rightarrow> ('a \<Rightarrow> json option \<Rightarrow> bool) \<Rightarrow> bool" where
  "threads latest m Q =
     (\<forall>w. \<exists>es. transcript (snd (m w)) = transcript w @ es \<and> token_threaded latest es \<and>
        (case fst (m w) of Inr x \<Rightarrow> Q x (final_token latest es) | Inl e \<Rightarrow> True))"

section \<open>Example environments\<close>

text \<open>
  Concrete stand-ins for the libraries and the server, used to run the definitions
  on explicit inputs.
\<close>

definition example_env :: env where
  "example_env =
     \<lparr>HAS_FIDO2 = True,
      totp_now = (\<lambda>key. Inr ''492039''),
      Fido2Client = (\<lambda>device origin. None),
      get_assertion = (\<lambda>device origin req.
        Inr \<lparr>authenticatorData = [1], clientData = [2], signature = [3]\<rparr>),
      HTMLParser = (\<lambda>html.
        HtmlDoc (Some \<lparr>action = Some ''https://idp.example/sso'',
                       inputs = [(Some ''RelayState'', Some ''abc'')]\<rparr>)),
      urlencode = (\<lambda>kvs. concat (map (\<lambda>(k, v). k @ ''='' @ v @ ''&'') kvs)),
      netloc = (\<lambda>url. Inr ''idp.example'')\<rparr>"

definition json_response :: "json \<Rightarrow> response" where
  "json_response j = \<lparr>ok = True, content = JsonDoc j, headers = Map.empty\<rparr>"

definition example_factor :: "string \<Rightarrow> string \<Rightarrow> json" where
  "example_factor factorType href =
     JObj [(''factorType'', JStr factorType), (''provider'', JStr ''OKTA''),
           (''vendorName'', JStr ''OKTA''),
           (''_links'', JObj [(''verify'', JObj [(''href'', JStr href)])])]"

definition example_world :: "outcome list \<Rightarrow> string list \<Rightarrow> world" where
  "example_world script typed =
     \<lparr>server = script, answers = typed, confirms = [], hid = [], transcript = []\<rparr>"

definition three_factors :: "json list" where
  "three_factors =
     [example_factor ''sms'' ''https://idp.example/f/sms'',
      example_factor ''push'' ''https://idp.example/f/push'',
      example_factor ''token:software:totp'' ''https://idp.example/f/totp'']"

definition question_factors :: "json list" where
  "question_factors =
     [example_factor ''push'' ''https://idp.example/f/push'',
      example_factor ''question'' ''https://idp.example/f/question'',
      example_factor ''sms'' ''https://idp.example/f/sms'']"

definition mfa_required :: "json list \<Rightarrow> json" where
  "mfa_required factors =
     JObj [(''status'', JStr ''MFA_REQUIRED''), (''stateToken'', JStr ''00abc''),
           (''_embedded'', JObj [(''factors'', JList factors)])]"

definition success :: json where
  "success = JObj [(''status'', JStr ''SUCCESS''), (''sessionToken'', JStr ''20111'')]"

definition challenge_waiting :: "string \<Rightarrow> json" where
  "challenge_waiting token =
     JObj [(''status'', JStr ''MFA_CHALLENGE''), (''factorResult'', JStr ''WAITING''),
           (''stateToken'', JStr token)]"

section \<open>Properties\<close>

subsection \<open>Factor priorities\<close>

lemma bindE_Inr [simp]: "bindE (Inr x) f = f x"
  by (simp add: bindE_def)

lemma bindE_Inl [simp]: "bindE (Inl e) f = Inl e"
  by (simp add: bindE_def)

lemma fold_upd_map_add:
  "fold (\<lambda>(k, v) m. m(k \<mapsto> v)) pairs m = m ++ map_of (rev pairs)"
proof (induction pairs arbitrary: m)
  case Nil
  show ?case by simp
next
  case (Cons p ps)
  obtain a b where p: "p = (a, b)" by (cases p)
  have "fold (\<lambda>(k, v) m. m(k \<mapsto> v)) (p # ps) m = m(a \<mapsto> b) ++ map_of (rev ps)"
    by (simp only: fold_simps p prod.case Cons.IH)
  also have "m(a \<mapsto> b) = m ++ [a \<mapsto> b]"
    by simp
  also have "m ++ [a \<mapsto> b] ++ map_of (rev ps) = m ++ map_of (rev (p # ps))"
    by (simp add: p map_add_assoc del: map_add_upd)
  finally show ?case .
qed

lemma dict_map_of: "dict pairs k = map_of (rev pairs) k"
  by (simp add: dict_def fold_upd_map_add)



subsection \<open>Base64 round trips\<close>

lemma distinct_alphabet: "distinct alphabet"
  by (simp add: alphabet_def)

lemma index_of_nth: "distinct xs \<Longrightarrow> n < length xs \<Longrightarrow> index_of (xs ! n) xs = Some n"
proof (induction xs arbitrary: n)
  case Nil
  then show ?case by simp
next
  case (Cons x xs)
  show ?case
  proof (cases n)
    case 0
    then show ?thesis by simp
  next
    case (Suc m)
    with Cons.prems have "m < length xs" "distinct xs" "xs ! m \<noteq> x"
      by auto
    with Cons.IH Suc show ?thesis by simp
  qed
qed

lemma a2b_b2a: "n < 64 \<Longrightarrow> a2b (b2a n) = Some n"
  unfolding a2b_def b2a_def
  by (rule index_of_nth [OF distinct_alphabet]) (simp add: alphabet_def)

lemma length_alphabet: "length alphabet = 64"
  by (simp add: alphabet_def)

lemma b2a_in_alphabet: "n < 64 \<Longrightarrow> b2a n \<in> set alphabet"
  unfolding b2a_def by (rule nth_mem) (simp add: length_alphabet)

lemma b2a_not_pad: "n < 64 \<Longrightarrow> b2a n \<noteq> CHR ''=''"
proof -
  assume "n < 64"
  then have "b2a n \<in> set alphabet"
    by (rule b2a_in_alphabet)
  moreover have "CHR ''='' \<notin> set alphabet"
    by (simp add: alphabet_def)
  ultimately show ?thesis by auto
qed


lemma a2b_base64_data:
  assumes "n < 64"
  shows "a2b_base64 q l p out (b2a n # rest) =
     (if q = 0 then a2b_base64 1 n 0 out rest
      else if q = 1 then a2b_base64 2 (n mod 16) 0 (out @ [of_nat (l * 4 + n div 16)]) rest
      else if q = 2 then a2b_base64 3 (n mod 4) 0 (out @ [of_nat (l * 16 + n div 4)]) rest
      else a2b_base64 0 0 0 (out @ [of_nat (l * 64 + n)]) rest)"
  using assms by (simp add: a2b_b2a b2a_not_pad)

lemma a2b_base64_pad:
  "a2b_base64 q l p out (CHR ''='' # rest) =
     (if q \<ge> 2 \<and> q + (p + 1) \<ge> 4 then Inr out
      else a2b_base64 q l (if q \<ge> 2 then p + 1 else p) out rest)"
  by simp

declare a2b_base64.simps(2) [simp del]

lemma sextets_bound:
  fixes x y :: nat
  assumes "x < 256" "y < 256"
  shows "x div 4 < 64" "x mod 4 * 16 + y div 16 < 64" "x mod 16 * 4 + y div 64 < 64" 
    "x mod 64 < 64" "x mod 4 * 16 < 64" "x mod 16 * 4 < 64"
  using assms by auto

lemma sextets_inverse:
  fixes x y z :: nat
  assumes "x < 256" "y < 256" "z < 256"
  shows "x div 4 * 4 + (x mod 4 * 16 + y div 16) div 16 = x"
    and "(x mod 4 * 16 + y div 16) mod 16 * 16 + (y mod 16 * 4 + z div 64) div 4 = y"
    and "(y mod 16 * 4 + z div 64) mod 4 * 64 + z mod 64 = z"
    and "x div 4 * 4 + (x mod 4 * 16) div 16 = x"
    and "(x mod 4 * 16 + y div 16) mod 16 * 16 + (y mod 16 * 4) div 4 = y"
  using assms by auto

lemma unat_byte_bound: "unat (a :: byte) < 256"
  using unsigned_less [of a, where ?'a = nat] by simp

lemma a2b_base64_b64encode:
  "a2b_base64 0 l p out (b64encode bs) = Inr (out @ bs)"
proof (induction bs arbitrary: l p out rule: b64encode.induct)
  case 1
  show ?case by simp
next
  case (2 a)
  show ?case
    using unat_byte_bound [of a]
    by (simp add: a2b_base64_data a2b_base64_pad sextets_bound sextets_inverse)
next
  case (3 a b)
  show ?case
    using unat_byte_bound [of a] unat_byte_bound [of b]
    by (simp add: a2b_base64_data a2b_base64_pad sextets_bound sextets_inverse)
next
  case (4 a b c rest)
  have "a2b_base64 0 l p out (b64encode (a # b # c # rest)) =
        a2b_base64 0 0 0 (out @ [a, b, c]) (b64encode rest)"
    using unat_byte_bound [of a] unat_byte_bound [of b] unat_byte_bound [of c]
    by (simp add: a2b_base64_data a2b_base64_pad sextets_bound sextets_inverse)
  then show ?case
    by (simp add: "4.IH")
qed

lemma translation_alphabet:
  "\<forall>c \<in> set alphabet.
     urlsafe_encode_translation c \<noteq> CHR ''='' \<and>
     urlsafe_decode_translation (urlsafe_encode_translation c) = c"
  by (simp add: alphabet_def urlsafe_encode_translation_def urlsafe_decode_translation_def)

lemma translation_b2a:
  assumes "n < 64"
  shows "urlsafe_encode_translation (b2a n) \<noteq> CHR ''=''"
    and "urlsafe_decode_translation (urlsafe_encode_translation (b2a n)) = b2a n"
  using translation_alphabet b2a_in_alphabet [OF assms] by auto

lemma translation_pad:
  "urlsafe_encode_translation (CHR ''='') = CHR ''=''"
  "urlsafe_decode_translation (CHR ''='') = CHR ''=''"
  by (simp_all add: urlsafe_encode_translation_def urlsafe_decode_translation_def)

lemma replicate_pads:
  "replicate 2 c = [c, c]" "replicate (Suc 0) c = [c]"
  by (simp_all add: numeral_2_eq_2)

lemma websafe_encode_padded:
  "map urlsafe_decode_translation
     (websafe_encode bs @
      replicate ((4 - length (websafe_encode bs) mod 4) mod 4) (CHR ''=''))
   = b64encode bs"
proof (induction bs rule: b64encode.induct)
  case 1
  show ?case by (simp add: websafe_encode_def urlsafe_b64encode_def)
next
  case (2 a)
  show ?case
    using unat_byte_bound [of a]
    by (simp add: websafe_encode_def urlsafe_b64encode_def translation_b2a translation_pad
        sextets_bound replicate_pads)
next
  case (3 a b)
  show ?case
    using unat_byte_bound [of a] unat_byte_bound [of b]
    by (simp add: websafe_encode_def urlsafe_b64encode_def translation_b2a translation_pad
        sextets_bound replicate_pads)
next
  case (4 a b c rest)
  have "websafe_encode (a # b # c # rest) =
          map urlsafe_encode_translation
            [b2a (unat a div 4), b2a (unat a mod 4 * 16 + unat b div 16),
             b2a (unat b mod 16 * 4 + unat c div 64), b2a (unat c mod 64)]
          @ websafe_encode rest"
    using unat_byte_bound [of a] unat_byte_bound [of b] unat_byte_bound [of c]
    by (simp add: websafe_encode_def urlsafe_b64encode_def translation_b2a sextets_bound)
  then show ?case
    using unat_byte_bound [of a] unat_byte_bound [of b] unat_byte_bound [of c] "4.IH"
    by (simp add: translation_b2a sextets_bound)
qed

lemma b64decode_b64encode: "b64decode (b64encode bs) = Inr bs"
  by (simp add: b64decode_def a2b_base64_b64encode)

lemma b64encode_chars: "set (b64encode bs) \<subseteq> insert (CHR ''='') (set alphabet)"
proof (induction bs rule: b64encode.induct)
  case 1
  show ?case by simp
next
  case (2 a)
  show ?case
    using unat_byte_bound [of a] by (simp add: b2a_in_alphabet sextets_bound)
next
  case (3 a b)
  show ?case
    using unat_byte_bound [of a] unat_byte_bound [of b]
    by (simp add: b2a_in_alphabet sextets_bound)
next
  case (4 a b c rest)
  show ?case
    using unat_byte_bound [of a] unat_byte_bound [of b] unat_byte_bound [of c] "4.IH"
    by (simp add: b2a_in_alphabet sextets_bound)
qed

lemma translation_ascii:
  "\<forall>c \<in> set alphabet. (of_char (urlsafe_encode_translation c) :: nat) < 128"
  by (simp add: alphabet_def urlsafe_encode_translation_def)

lemma is_ascii_websafe_encode: "is_ascii (websafe_encode bs)"
proof -
  have "(of_char c :: nat) < 128" if "c \<in> set (websafe_encode bs)" for c
  proof -
    from that obtain x where x: "x \<in> set (b64encode bs)" "c = urlsafe_encode_translation x"
      and c: "c \<noteq> CHR ''=''"
      by (auto simp: websafe_encode_def urlsafe_b64encode_def)
    from x(2) c have "x \<noteq> CHR ''=''"
      by (auto simp: translation_pad)
    with x(1) b64encode_chars [of bs] have "x \<in> set alphabet"
      by auto
    with translation_ascii x(2) show ?thesis
      by blast
  qed
  then show ?thesis
    by (simp add: is_ascii_def list_all_iff)
qed

lemma websafe_decode_websafe_encode: "websafe_decode (websafe_encode bs) = Inr bs"
  unfolding websafe_decode_def urlsafe_b64decode_def websafe_encode_padded b64decode_def
  by (simp add: is_ascii_websafe_encode a2b_base64_b64encode [where out = "[]", simplified])

lemma b64_eq: "b64 obj = Inr (b64encode obj)"
  by (simp add: b64_def websafe_decode_websafe_encode)

text \<open>
  C6. Each of the three assertion fields goes into the payload as \<open>b64\<close> of it, which
  is the standard padded base64 of the field's canonical URL-safe decoding; that
  decoding gives back the authenticator's bytes, and decoding the transported string
  with standard base64 gives the same bytes again.
\<close>

theorem webauthn_fields_round_trip:
  assumes "subscript r ''stateToken'' = Inr tok"
  shows "assertion_payload a r =
           Inr (JObj [(''authenticatorData'', JStr (b64encode (authenticatorData a))),
                      (''clientData'', JStr (b64encode (clientData a))),
                      (''signatureData'', JStr (b64encode (signature a))),
                      (''stateToken'', tok)])
         \<and> websafe_decode (websafe_encode obj) = Inr obj
         \<and> b64 obj = Inr (b64encode obj)
         \<and> b64decode (b64encode obj) = Inr obj"
  using assms
  by (simp add: assertion_payload_def b64_eq websafe_decode_websafe_encode b64decode_b64encode)

theorem webauthn_fields_round_trip_witness:
  "subscript (JObj [(''stateToken'', JStr ''00abc'')]) ''stateToken'' = Inr (JStr ''00abc'')
   \<and> assertion_payload
         \<lparr>authenticatorData = [0xfb, 0xff], clientData = [1, 2, 3], signature = [0x61]\<rparr>
         (JObj [(''stateToken'', JStr ''00abc'')]) =
       Inr (JObj [(''authenticatorData'', JStr ''+/8=''),
                  (''clientData'', JStr ''AQID''),
                  (''signatureData'', JStr ''YQ==''),
                  (''stateToken'', JStr ''00abc'')])
   \<and> websafe_encode [0xfb, 0xff] = ''-_8''
   \<and> websafe_decode ''-_8'' = Inr [0xfb, 0xff]
   \<and> b64 [0xfb, 0xff] = Inr ''+/8=''
   \<and> b64decode ''+/8='' = Inr [0xfb, 0xff]"
proof -
  have enc: "b64encode [0xfb, 0xff] = ''+/8=''" "b64encode [1, 2, 3] = ''AQID''"
    "b64encode [0x61] = ''YQ==''"
    by (simp_all add: b2a_def alphabet_def)
  have ws: "websafe_encode [0xfb, 0xff] = ''-_8''"
    by (simp add: websafe_encode_def urlsafe_b64encode_def urlsafe_encode_translation_def
        b2a_def alphabet_def)
  show ?thesis
    using webauthn_fields_round_trip
            [of "JObj [(''stateToken'', JStr ''00abc'')]" "JStr ''00abc''"
                "\<lparr>authenticatorData = [0xfb, 0xff], clientData = [1, 2, 3], signature = [0x61]\<rparr>"
                "[0xfb, 0xff]"]
    by (simp add: enc ws del: b64encode.simps)
qed

subsection \<open>First response and prelogin\<close>

lemma bindIO_apply:
  "bindIO m f w = (case m w of (Inl e, w') \<Rightarrow> (Inl e, w') | (Inr x, w') \<Rightarrow> f x w')"
  by (simp add: bindIO_def)

lemma returnIO_apply: "returnIO x w = (Inr x, w)"
  by (simp add: returnIO_def)

lemma raiseIO_apply: "raiseIO e w = (Inl e, w)"
  by (simp add: raiseIO_def)

lemma liftE_apply: "liftE m w = (m, w)"
  by (simp add: liftE_def)

lemmas io_apply = bindIO_apply returnIO_apply raiseIO_apply liftE_apply

lemma post_json_returns:
  assumes "server w = Returns resp # rest" "ok resp" "content resp = JsonDoc j"
  shows "post_json (JStr u) d w =
     (Inr j, w\<lparr>server := rest,
               transcript := transcript w @ [Post u (JsonData d), Received resp]\<rparr>)"
  using assms
  by (simp add: post_json_def s_post_def request_def check_def json_of_def io_apply)

text \<open>
  C8. When the first response of the provider has status LOCKED_OUT, \<open>okta_auth\<close>
  raises \<^verbatim>\<open>Exception('Locked out of Okta!')\<close>, the program's account-locked
  error. The transcript grows by the authentication request and its response only:
  no factor is tried, and the rest of the server's script, the terminal and the USB
  bus are untouched.
\<close>

theorem okta_auth_locked_out:
  assumes "server w = Returns resp # rest" "ok resp" "content resp = JsonDoc r"
    and "subscript r ''status'' = Inr (JStr ''LOCKED_OUT'')"
  shows "okta_auth env domain username password factor_priorities totp_key w =
     (Inl (Exception ''Locked out of Okta!''),
      w\<lparr>server := rest,
        transcript := transcript w @
          [Post (''https://'' @ domain @ ''/api/v1/authn'')
             (JsonData (JObj [(''username'', JStr username), (''password'', JStr password)])),
           Received resp]\<rparr>)"
  using assms(4)
  by (simp add: okta_auth_def session_token_def io_apply post_json_returns [OF assms(1-3)])

text \<open>
  C10. When the first response has status SUCCESS, \<open>okta_auth\<close> returns
  \<^verbatim>\<open>r['sessionToken']\<close> of that response. The transcript grows by the
  authentication request and its response only: no verification request, no prompt.
\<close>

theorem okta_auth_success:
  assumes "server w = Returns resp # rest" "ok resp" "content resp = JsonDoc r"
    and "subscript r ''status'' = Inr (JStr ''SUCCESS'')"
  shows "okta_auth env domain username password factor_priorities totp_key w =
     (subscript r ''sessionToken'',
      w\<lparr>server := rest,
        transcript := transcript w @
          [Post (''https://'' @ domain @ ''/api/v1/authn'')
             (JsonData (JObj [(''username'', JStr username), (''password'', JStr password)])),
           Received resp]\<rparr>)"
  using assms(4)
  by (simp add: okta_auth_def session_token_def io_apply post_json_returns [OF assms(1-3)])

theorem okta_auth_locked_out_witness:
  "okta_auth example_env ''idp.example'' ''alice'' ''hunter2'' (main_factor_priorities None []) None
     (example_world
        [Returns (json_response (JObj [(''status'', JStr ''LOCKED_OUT'')])),
         Returns (json_response (JObj [(''status'', JStr ''SUCCESS'')]))] [''123456''])
   = (Inl (Exception ''Locked out of Okta!''),
      \<lparr>server = [Returns (json_response (JObj [(''status'', JStr ''SUCCESS'')]))],
       answers = [''123456''], confirms = [], hid = [],
       transcript =
         [Post ''https://idp.example/api/v1/authn''
            (JsonData (JObj [(''username'', JStr ''alice''), (''password'', JStr ''hunter2'')])),
          Received (json_response (JObj [(''status'', JStr ''LOCKED_OUT'')]))]\<rparr>)"
  using okta_auth_locked_out
          [of "example_world
                 [Returns (json_response (JObj [(''status'', JStr ''LOCKED_OUT'')])),
                  Returns (json_response (JObj [(''status'', JStr ''SUCCESS'')]))] [''123456'']"
              "json_response (JObj [(''status'', JStr ''LOCKED_OUT'')])"
              "[Returns (json_response (JObj [(''status'', JStr ''SUCCESS'')]))]"
              "JObj [(''status'', JStr ''LOCKED_OUT'')]"
              example_env "''idp.example''" "''alice''" "''hunter2''"
              "main_factor_priorities None []" None]
  by (simp add: example_world_def json_response_def)

theorem okta_auth_success_witness:
  "okta_auth example_env ''idp.example'' ''alice'' ''hunter2'' (main_factor_priorities None []) None
     (example_world
        [Returns (json_response (JObj [(''status'', JStr ''SUCCESS''), (''sessionToken'', JStr ''20111'')])),
         Returns (json_response (JObj [(''status'', JStr ''SUCCESS'')]))] [''123456''])
   = (Inr (JStr ''20111''),
      \<lparr>server = [Returns (json_response (JObj [(''status'', JStr ''SUCCESS'')]))],
       answers = [''123456''], confirms = [], hid = [],
       transcript =
         [Post ''https://idp.example/api/v1/authn''
            (JsonData (JObj [(''username'', JStr ''alice''), (''password'', JStr ''hunter2'')])),
          Received (json_response
            (JObj [(''status'', JStr ''SUCCESS''), (''sessionToken'', JStr ''20111'')]))]\<rparr>)"
  using okta_auth_success
          [of "example_world
                 [Returns (json_response (JObj [(''status'', JStr ''SUCCESS''), (''sessionToken'', JStr ''20111'')])),
                  Returns (json_response (JObj [(''status'', JStr ''SUCCESS'')]))] [''123456'']"
              "json_response (JObj [(''status'', JStr ''SUCCESS''), (''sessionToken'', JStr ''20111'')])"
              "[Returns (json_response (JObj [(''status'', JStr ''SUCCESS'')]))]"
              "JObj [(''status'', JStr ''SUCCESS''), (''sessionToken'', JStr ''20111'')]"
              example_env "''idp.example''" "''alice''" "''hunter2''"
              "main_factor_priorities None []" None]
  by (simp add: example_world_def json_response_def)

lemma s_post_returns:
  assumes "server w = Returns resp # rest"
  shows "s_post (JStr u) d w =
     (Inr resp, w\<lparr>server := rest, transcript := transcript w @ [Post u d, Received resp]\<rparr>)"
  using assms by (simp add: s_post_def request_def)

text \<open>
  C9. When the form taken from the prelogin response has no \<open>SAMLRequest\<close> field,
  the assertion of \<open>prelogin\<close> fails (the source's way of reporting a violated
  protocol) and the flow stops there: the only request on the transcript is the
  prelogin request, and the rest of the server's script is still unread.
\<close>

theorem prelogin_without_saml_request:
  assumes "server w = Returns resp # rest" "ok resp"
    and "bindE (saml_request_text resp) b64decode_str = Inr html"
    and "extract_form (HTMLParser env html) = Inr (saml_req_url, saml_req_data)"
    and "''SAMLRequest'' \<notin> set (map fst saml_req_data)"
  shows "main_session env gateway username password factor_priorities totp_key w =
     (Inl AssertionError,
      w\<lparr>server := rest,
        transcript := transcript w @
          [Post (''https://'' @ gateway @ ''/ssl-vpn/prelogin.esp'') NoData, Received resp]\<rparr>)"
  using assms(2-5)
  by (simp add: main_session_def prelogin_def io_apply check_def s_post_returns [OF assms(1)])

theorem prelogin_without_saml_request_witness:
  "main_session example_env ''vpn.example'' ''alice'' ''hunter2'' (main_factor_priorities None []) None
     (example_world
        [Returns \<lparr>ok = True, content = XmlDoc [(''status'', Some ''Success''), (''saml-request'', Some ''PGh0bWw+'')],
                  headers = Map.empty\<rparr>,
         Returns (json_response (JObj [(''status'', JStr ''SUCCESS'')]))] [])
   = (Inl AssertionError,
      \<lparr>server = [Returns (json_response (JObj [(''status'', JStr ''SUCCESS'')]))],
       answers = [], confirms = [], hid = [],
       transcript =
         [Post ''https://vpn.example/ssl-vpn/prelogin.esp'' NoData,
          Received \<lparr>ok = True, content = XmlDoc [(''status'', Some ''Success''), (''saml-request'', Some ''PGh0bWw+'')],
                    headers = Map.empty\<rparr>]\<rparr>)"
proof -
  have dec: "b64decode_str ''PGh0bWw+'' = Inr [0x3c, 0x68, 0x74, 0x6d, 0x6c, 0x3e]"
    by (simp add: b64decode_str_def is_ascii_def b64decode_def a2b_def alphabet_def
        a2b_base64.simps)
  show ?thesis
    using prelogin_without_saml_request
          [of "example_world
                 [Returns \<lparr>ok = True, content = XmlDoc [(''status'', Some ''Success''), (''saml-request'', Some ''PGh0bWw+'')],
                           headers = Map.empty\<rparr>,
                  Returns (json_response (JObj [(''status'', JStr ''SUCCESS'')]))] []"
              "\<lparr>ok = True, content = XmlDoc [(''status'', Some ''Success''), (''saml-request'', Some ''PGh0bWw+'')],
                headers = Map.empty\<rparr>"
              "[Returns (json_response (JObj [(''status'', JStr ''SUCCESS'')]))]"
              "[0x3c, 0x68, 0x74, 0x6d, 0x6c, 0x3e]"
              example_env "''https://idp.example/sso''" "[(''RelayState'', ''abc'')]"
              "''vpn.example''" "''alice''" "''hunter2''" "main_factor_priorities None []" None]
    by (simp add: example_world_def example_env_def saml_request_text_def dec extract_form_def
        attrib_def dict_items_def)
qed

subsection \<open>The order of the factors\<close>

lemma mapE_Inr:
  "mapE key xs = Inr ks \<Longrightarrow> ks = map (key_of key) xs \<and> (\<forall>x \<in> set xs. key x = Inr (key_of key x))"
proof (induction xs arbitrary: ks)
  case Nil
  then show ?case by simp
next
  case (Cons x xs)
  from Cons.prems obtain k ks' where k: "key x = Inr k" and ks': "mapE key xs = Inr ks'"
    and ks: "ks = k # ks'"
    by (auto simp: bindE_def split: sum.splits)
  from Cons.IH [OF ks'] k ks show ?case
    by (simp add: key_of_def)
qed

lemma insort_key_map:
  "insort_key f (g x) (map g xs) = map g (insort_key (\<lambda>x. f (g x)) x xs)"
  by (induction xs) simp_all

lemma sort_key_map: "sort_key f (map g xs) = map g (sort_key (\<lambda>x. f (g x)) xs)"
  by (induction xs) (simp_all add: insort_key_map)

lemma sorted_reverse_Inr:
  assumes "mapE key xs = Inr ks"
  shows "sorted_reverse key xs = Inr (sort_key (\<lambda>x. - key_of key x) xs)"
proof -
  from mapE_Inr [OF assms] have ks: "ks = map (key_of key) xs"
    by simp
  have "zip ks xs = map (\<lambda>x. (key_of key x, x)) xs"
    unfolding ks by (induction xs) simp_all
  then have "map snd (sort_key (\<lambda>(k, x). - k) (zip ks xs)) = sort_key (\<lambda>x. - key_of key x) xs"
    by (simp add: sort_key_map comp_def)
  with assms show ?thesis
    by (simp add: sorted_reverse_def)
qed

lemma sorted_reverse_properties:
  assumes "mapE key xs = Inr ks" and "sorted_reverse key xs = Inr ys"
  shows "mset ys = mset xs"
    and "sorted_wrt (not_before key) ys"
    and "filter (\<lambda>x. key x = Inr p) ys = filter (\<lambda>x. key x = Inr p) xs"
proof -
  let ?k = "key_of key"
  from assms have ys: "ys = sort_key (\<lambda>x. - ?k x) xs"
    by (simp add: sorted_reverse_Inr)
  from mapE_Inr [OF assms(1)] have key: "\<forall>x \<in> set xs. key x = Inr (?k x)"
    by simp
  show "mset ys = mset xs"
    by (simp add: ys)
  have "sorted (map (\<lambda>x. - ?k x) ys)"
    unfolding ys by (rule sorted_sort_key)
  then have "sorted_wrt (\<lambda>a b. ?k b \<le> ?k a) ys"
    by (simp add: sorted_map)
  moreover have "\<forall>x \<in> set ys. key x = Inr (?k x)"
    using key by (simp add: ys)
  ultimately show "sorted_wrt (not_before key) ys"
    by (auto simp: not_before_def elim!: sorted_wrt_mono_rel [rotated])
  have "filter (\<lambda>x. key x = Inr p) ys = filter (\<lambda>x. - ?k x = - p) ys"
    using key by (intro filter_cong) (auto simp: ys)
  also have "\<dots> = filter (\<lambda>x. - ?k x = - p) xs"
    unfolding ys by (rule sort_key_stable)
  also have "\<dots> = filter (\<lambda>x. key x = Inr p) xs"
    using key by (intro filter_cong) auto
  finally show "filter (\<lambda>x. key x = Inr p) ys = filter (\<lambda>x. key x = Inr p) xs" .
qed

lemma bindIO_liftE_Inr: "bindIO (liftE (Inr x)) f = f x"
  by (rule ext) (simp add: io_apply)

lemma re_match_token_JStr: "re_match_token (JStr t) = Inr (token_family t)"
  by (simp add: re_match_token_def token_family_def)

lemma token_family_not_other:
  "token_family t \<Longrightarrow> t \<noteq> ''push'' \<and> t \<noteq> ''sms'' \<and> t \<noteq> ''webauthn''"
  by (auto simp: token_family_def)

lemma factor_loop_passed_over:
  assumes "passed_over ignore_webauthn factor"
  shows "factor_loop env domain totp_key ignore_webauthn r (factor # rest) =
         factor_loop env domain totp_key ignore_webauthn r rest"
proof -
  from assms obtain t where t: "subscript factor ''factorType'' = Inr (JStr t)"
    and no: "t \<noteq> ''push''" "t \<noteq> ''sms''" "\<not> token_family t"
      "t = ''webauthn'' \<longrightarrow> ignore_webauthn"
    by (auto simp: passed_over_def split: sum.splits json.splits)
  then show ?thesis
    by (cases "t = ''webauthn''") (simp_all add: bindIO_liftE_Inr re_match_token_JStr)
qed

lemma factor_loop_taken:
  assumes "taken factor"
  shows "factor_loop env domain totp_key ignore_webauthn r (factor # rest) =
         factor_loop env domain totp_key ignore_webauthn r [factor]"
proof -
  from assms obtain t where t: "subscript factor ''factorType'' = Inr (JStr t)"
    and yes: "t = ''push'' \<or> t = ''sms'' \<or> token_family t"
    by (auto simp: taken_def split: sum.splits json.splits)
  from yes consider "t = ''push''" | "t = ''sms''" | "token_family t"
    by auto
  then show ?thesis
  proof cases
    case 1
    with t show ?thesis by (simp add: bindIO_liftE_Inr)
  next
    case 2
    with t show ?thesis by (simp add: bindIO_liftE_Inr)
  next
    case 3
    with t token_family_not_other [OF 3] show ?thesis
      by (simp add: bindIO_liftE_Inr re_match_token_JStr)
  qed
qed

lemma factor_loop_skips:
  assumes "list_all (passed_over ignore_webauthn) skipped"
  shows "factor_loop env domain totp_key ignore_webauthn r (skipped @ rest) =
         factor_loop env domain totp_key ignore_webauthn r rest"
  using assms
  by (induction skipped) (simp_all add: factor_loop_passed_over del: factor_loop.simps)

lemma factor_loop_first_taken:
  assumes "list_all (passed_over ignore_webauthn) skipped" "taken f"
  shows "factor_loop env domain totp_key ignore_webauthn r (skipped @ f # rest) =
         factor_loop env domain totp_key ignore_webauthn r [f]"
  using factor_loop_skips [OF assms(1)] factor_loop_taken [OF assms(2)]
  by simp

lemma factor_loop_none_taken:
  assumes "list_all (passed_over ignore_webauthn) skipped"
  shows "factor_loop env domain totp_key ignore_webauthn r skipped =
         raiseIO (Exception ''No supported authentication factors'')"
  using factor_loop_skips [OF assms, of env domain totp_key r "[]"]
  by simp

lemma factor_loop_webauthn_no_device:
  assumes "subscript factor ''factorType'' = Inr (JStr ''webauthn'')" "HAS_FIDO2 env"
    and "get_device w = (Inr None, w1)"
  shows "factor_loop env domain totp_key False r (factor # rest) w =
         factor_loop env domain totp_key True r rest w1"
  using assms by (simp add: io_apply)

lemma factor_loop_webauthn_device:
  assumes "subscript factor ''factorType'' = Inr (JStr ''webauthn'')" "HAS_FIDO2 env"
    and "get_device w = (Inr (Some d), w1)"
  shows "factor_loop env domain totp_key False r (factor # rest) w =
         bindIO (liftE (subscript r ''stateToken'')) (okta_verify env d domain) w1"
  using assms by (simp add: io_apply)

text \<open>
  C2. When the first response asks for a second factor, \<open>okta_auth\<close> runs the factor
  loop over a list \<open>ordered\<close> that is the offered list rearranged (same elements),
  in descending priority, with the factors of each priority in the provider's
  order. The loop considers that list front to back: it passes over every factor
  no branch takes and runs the sub-protocol of the first factor that is taken,
  whatever follows it; when no factor is taken it fails with
  \<open>No supported authentication factors\<close>; at a \<open>webauthn\<close> factor it asks for a
  device, and goes on with the factors after it when there is none, or verifies
  with the device. The example below has the priorities totp 2, push 1, sms 0
  and the provider's order sms, push, totp: the totp factor comes first, and the
  only verification request goes to it. A second example has the priorities
  question 5, sms 3, push 1 and the provider's order push, question, sms: the
  question factor is passed over and the requests go to the sms factor, never to
  the push factor.
\<close>

theorem factors_tried_in_stable_descending_order:
  assumes "server w = Returns resp # rest" "ok resp" "content resp = JsonDoc r"
    and "subscript r ''status'' = Inr (JStr ''MFA_REQUIRED'')"
    and "bindE (subscript r ''_embedded'') (\<lambda>e. subscript e ''factors'') = Inr (JList factors)"
    and "mapE (priority fp) factors = Inr ps"
  shows "(\<exists>ordered.
      okta_auth env domain username password fp totp_key w =
        bindIO (factor_loop env domain totp_key (\<not> HAS_FIDO2 env) r ordered)
          (\<lambda>r. liftE (session_token r))
          (w\<lparr>server := rest,
             transcript := transcript w @
               [Post (''https://'' @ domain @ ''/api/v1/authn'')
                  (JsonData (JObj [(''username'', JStr username), (''password'', JStr password)])),
                Received resp]\<rparr>)
      \<and> mset ordered = mset factors
      \<and> sorted_wrt (not_before (priority fp)) ordered
      \<and> (\<forall>p. filter (\<lambda>f. priority fp f = Inr p) ordered =
               filter (\<lambda>f. priority fp f = Inr p) factors))
    \<and> (\<forall>flag skipped f later.
          list_all (passed_over flag) skipped \<and> taken f \<longrightarrow>
          factor_loop env domain totp_key flag r (skipped @ f # later) =
          factor_loop env domain totp_key flag r [f])
    \<and> (\<forall>flag skipped.
          list_all (passed_over flag) skipped \<longrightarrow>
          factor_loop env domain totp_key flag r skipped =
          raiseIO (Exception ''No supported authentication factors''))
    \<and> (\<forall>skipped f later w0 w1.
          list_all (passed_over False) skipped \<and>
          subscript f ''factorType'' = Inr (JStr ''webauthn'') \<and> HAS_FIDO2 env \<and>
          get_device w0 = (Inr None, w1) \<longrightarrow>
          factor_loop env domain totp_key False r (skipped @ f # later) w0 =
          factor_loop env domain totp_key True r later w1)
    \<and> (\<forall>skipped f later w0 w1 d.
          list_all (passed_over False) skipped \<and>
          subscript f ''factorType'' = Inr (JStr ''webauthn'') \<and> HAS_FIDO2 env \<and>
          get_device w0 = (Inr (Some d), w1) \<longrightarrow>
          factor_loop env domain totp_key False r (skipped @ f # later) w0 =
          bindIO (liftE (subscript r ''stateToken'')) (okta_verify env d domain) w1)"
proof -
  let ?ordered = "sort_key (\<lambda>x. - key_of (priority fp) x) factors"
  have sorted: "sorted_reverse (priority fp) factors = Inr ?ordered"
    by (rule sorted_reverse_Inr [OF assms(6)])
  from assms(5) obtain e where e: "subscript r ''_embedded'' = Inr e"
    and fs: "subscript e ''factors'' = Inr (JList factors)"
    by (auto simp: bindE_def split: sum.splits)
  have run: "okta_auth env domain username password fp totp_key w =
        bindIO (factor_loop env domain totp_key (\<not> HAS_FIDO2 env) r ?ordered)
          (\<lambda>r. liftE (session_token r))
          (w\<lparr>server := rest,
             transcript := transcript w @
               [Post (''https://'' @ domain @ ''/api/v1/authn'')
                  (JsonData (JObj [(''username'', JStr username), (''password'', JStr password)])),
                Received resp]\<rparr>)"
    using assms(4) e fs sorted
    by (simp add: okta_auth_def io_apply post_json_returns [OF assms(1-3)])
  note props = sorted_reverse_properties [OF assms(6) sorted]
  have stable: "\<forall>p. filter (\<lambda>f. priority fp f = Inr p) ?ordered =
               filter (\<lambda>f. priority fp f = Inr p) factors"
    using props(3) by simp
  have order: "\<exists>ordered.
      okta_auth env domain username password fp totp_key w =
        bindIO (factor_loop env domain totp_key (\<not> HAS_FIDO2 env) r ordered)
          (\<lambda>r. liftE (session_token r))
          (w\<lparr>server := rest,
             transcript := transcript w @
               [Post (''https://'' @ domain @ ''/api/v1/authn'')
                  (JsonData (JObj [(''username'', JStr username), (''password'', JStr password)])),
                Received resp]\<rparr>)
      \<and> mset ordered = mset factors
      \<and> sorted_wrt (not_before (priority fp)) ordered
      \<and> (\<forall>p. filter (\<lambda>f. priority fp f = Inr p) ordered =
               filter (\<lambda>f. priority fp f = Inr p) factors)"
    using run props(1,2) stable
    by (intro exI [of _ ?ordered] conjI) assumption+
  have first: "\<forall>flag skipped f later.
          list_all (passed_over flag) skipped \<and> taken f \<longrightarrow>
          factor_loop env domain totp_key flag r (skipped @ f # later) =
          factor_loop env domain totp_key flag r [f]"
    by (intro allI impI) (elim conjE, rule factor_loop_first_taken)
  have none: "\<forall>flag skipped.
          list_all (passed_over flag) skipped \<longrightarrow>
          factor_loop env domain totp_key flag r skipped =
          raiseIO (Exception ''No supported authentication factors'')"
    by (intro allI impI) (rule factor_loop_none_taken)
  have no_device: "\<forall>skipped f later w0 w1.
          list_all (passed_over False) skipped \<and>
          subscript f ''factorType'' = Inr (JStr ''webauthn'') \<and> HAS_FIDO2 env \<and>
          get_device w0 = (Inr None, w1) \<longrightarrow>
          factor_loop env domain totp_key False r (skipped @ f # later) w0 =
          factor_loop env domain totp_key True r later w1"
  proof (intro allI impI, elim conjE)
    fix skipped f later w0 w1
    assume sk: "list_all (passed_over False) skipped"
      and f: "subscript f ''factorType'' = Inr (JStr ''webauthn'')" "HAS_FIDO2 env"
        "get_device w0 = (Inr None, w1)"
    from sk have "factor_loop env domain totp_key False r (skipped @ f # later) =
               factor_loop env domain totp_key False r (f # later)"
      by (rule factor_loop_skips)
    with factor_loop_webauthn_no_device [OF f]
    show "factor_loop env domain totp_key False r (skipped @ f # later) w0 =
          factor_loop env domain totp_key True r later w1"
      by simp
  qed
  have device: "\<forall>skipped f later w0 w1 d.
          list_all (passed_over False) skipped \<and>
          subscript f ''factorType'' = Inr (JStr ''webauthn'') \<and> HAS_FIDO2 env \<and>
          get_device w0 = (Inr (Some d), w1) \<longrightarrow>
          factor_loop env domain totp_key False r (skipped @ f # later) w0 =
          bindIO (liftE (subscript r ''stateToken'')) (okta_verify env d domain) w1"
  proof (intro allI impI, elim conjE)
    fix skipped f later w0 w1 d
    assume sk: "list_all (passed_over False) skipped"
      and f: "subscript f ''factorType'' = Inr (JStr ''webauthn'')" "HAS_FIDO2 env"
        "get_device w0 = (Inr (Some d), w1)"
    from sk have "factor_loop env domain totp_key False r (skipped @ f # later) =
               factor_loop env domain totp_key False r (f # later)"
      by (rule factor_loop_skips)
    with factor_loop_webauthn_device [OF f]
    show "factor_loop env domain totp_key False r (skipped @ f # later) w0 =
          bindIO (liftE (subscript r ''stateToken'')) (okta_verify env d domain) w1"
      by simp
  qed
  from order first none no_device device show ?thesis
    by (intro conjI) assumption+
qed

theorem factors_tried_in_stable_descending_order_witness:
  "(\<exists>ordered.
      okta_auth example_env ''idp.example'' ''alice'' ''hunter2''
          [''token:software:totp'' \<mapsto> 2, ''push'' \<mapsto> 1, ''sms'' \<mapsto> 0] (Some ''JBSWY3DP'')
          (example_world [Returns (json_response (mfa_required three_factors)),
                          Returns (json_response success)] []) =
        bindIO (factor_loop example_env ''idp.example'' (Some ''JBSWY3DP'')
                  (\<not> HAS_FIDO2 example_env) (mfa_required three_factors) ordered)
          (\<lambda>r. liftE (session_token r))
          ((example_world [Returns (json_response (mfa_required three_factors)),
                           Returns (json_response success)] [])
             \<lparr>server := [Returns (json_response success)],
              transcript := transcript (example_world [Returns (json_response (mfa_required three_factors)),
                           Returns (json_response success)] []) @
               [Post (''https://'' @ ''idp.example'' @ ''/api/v1/authn'')
                  (JsonData (JObj [(''username'', JStr ''alice''), (''password'', JStr ''hunter2'')])),
                Received (json_response (mfa_required three_factors))]\<rparr>)
      \<and> mset ordered = mset three_factors
      \<and> sorted_wrt (not_before (priority [''token:software:totp'' \<mapsto> 2, ''push'' \<mapsto> 1, ''sms'' \<mapsto> 0])) ordered
      \<and> (\<forall>p. filter (\<lambda>f. priority [''token:software:totp'' \<mapsto> 2, ''push'' \<mapsto> 1, ''sms'' \<mapsto> 0] f = Inr p) ordered =
               filter (\<lambda>f. priority [''token:software:totp'' \<mapsto> 2, ''push'' \<mapsto> 1, ''sms'' \<mapsto> 0] f = Inr p) three_factors))
   \<and> factor_loop example_env ''idp.example'' (Some ''JBSWY3DP'') False (mfa_required three_factors)
         ([] @ example_factor ''token:software:totp'' ''https://idp.example/f/totp'' #
            [example_factor ''push'' ''https://idp.example/f/push'',
             example_factor ''sms'' ''https://idp.example/f/sms'']) =
       factor_loop example_env ''idp.example'' (Some ''JBSWY3DP'') False (mfa_required three_factors)
         [example_factor ''token:software:totp'' ''https://idp.example/f/totp'']
   \<and> factor_loop example_env ''idp.example'' (Some ''JBSWY3DP'') False (mfa_required three_factors)
         ([example_factor ''question'' ''https://idp.example/f/question''] @
            example_factor ''sms'' ''https://idp.example/f/sms'' #
            [example_factor ''push'' ''https://idp.example/f/push'']) =
       factor_loop example_env ''idp.example'' (Some ''JBSWY3DP'') False (mfa_required three_factors)
         [example_factor ''sms'' ''https://idp.example/f/sms'']
   \<and> factor_loop example_env ''idp.example'' (Some ''JBSWY3DP'') False (mfa_required three_factors)
         [example_factor ''question'' ''https://idp.example/f/question''] =
       raiseIO (Exception ''No supported authentication factors'')
   \<and> sorted_reverse (priority [''token:software:totp'' \<mapsto> 2, ''push'' \<mapsto> 1, ''sms'' \<mapsto> 0])
         three_factors =
       Inr [example_factor ''token:software:totp'' ''https://idp.example/f/totp'',
            example_factor ''push'' ''https://idp.example/f/push'',
            example_factor ''sms'' ''https://idp.example/f/sms'']
   \<and> requests (transcript (snd
         (okta_auth example_env ''idp.example'' ''alice'' ''hunter2''
            [''token:software:totp'' \<mapsto> 2, ''push'' \<mapsto> 1, ''sms'' \<mapsto> 0] (Some ''JBSWY3DP'')
            (example_world [Returns (json_response (mfa_required three_factors)),
                            Returns (json_response success)] [])))) =
       [Post ''https://idp.example/api/v1/authn''
          (JsonData (JObj [(''username'', JStr ''alice''), (''password'', JStr ''hunter2'')])),
        Post ''https://idp.example/f/totp''
          (JsonData (JObj [(''stateToken'', JStr ''00abc''), (''passCode'', JStr ''492039'')]))]
   \<and> sorted_reverse (priority [''question'' \<mapsto> 5, ''sms'' \<mapsto> 3, ''push'' \<mapsto> 1])
         question_factors =
       Inr [example_factor ''question'' ''https://idp.example/f/question'',
            example_factor ''sms'' ''https://idp.example/f/sms'',
            example_factor ''push'' ''https://idp.example/f/push'']
   \<and> requests (transcript (snd
         (okta_auth example_env ''idp.example'' ''alice'' ''hunter2''
            [''question'' \<mapsto> 5, ''sms'' \<mapsto> 3, ''push'' \<mapsto> 1] None
            (example_world [Returns (json_response (mfa_required question_factors)),
                            Returns (json_response (challenge_waiting ''00xyz'')),
                            Returns (json_response success)] [''123456''])))) =
       [Post ''https://idp.example/api/v1/authn''
          (JsonData (JObj [(''username'', JStr ''alice''), (''password'', JStr ''hunter2'')])),
        Post ''https://idp.example/f/sms'' (JsonData (JObj [(''stateToken'', JStr ''00abc'')])),
        Post ''https://idp.example/f/sms''
          (JsonData (JObj [(''stateToken'', JStr ''00xyz''), (''passCode'', JStr ''123456'')]))]"
proof -
  let ?fp = "[''token:software:totp'' \<mapsto> 2, ''push'' \<mapsto> 1, ''sms'' \<mapsto> (0::int)]"
  let ?fq = "[''question'' \<mapsto> 5, ''sms'' \<mapsto> 3, ''push'' \<mapsto> (1::int)]"
  let ?w = "example_world [Returns (json_response (mfa_required three_factors)),
                           Returns (json_response success)] []"
  have prio: "mapE (priority ?fp) three_factors = Inr [0, 1, 2]"
    by (simp add: three_factors_def example_factor_def priority_def)
  have sorted: "sorted_reverse (priority ?fp) three_factors =
       Inr [example_factor ''token:software:totp'' ''https://idp.example/f/totp'',
            example_factor ''push'' ''https://idp.example/f/push'',
            example_factor ''sms'' ''https://idp.example/f/sms'']"
    by (simp add: sorted_reverse_def prio) (simp add: three_factors_def)
  have run: "requests (transcript (snd
         (okta_auth example_env ''idp.example'' ''alice'' ''hunter2'' ?fp (Some ''JBSWY3DP'') ?w))) =
       [Post ''https://idp.example/api/v1/authn''
          (JsonData (JObj [(''username'', JStr ''alice''), (''password'', JStr ''hunter2'')])),
        Post ''https://idp.example/f/totp''
          (JsonData (JObj [(''stateToken'', JStr ''00abc''), (''passCode'', JStr ''492039'')]))]"
    by (simp add: okta_auth_def io_apply post_json_returns example_world_def json_response_def
        mfa_required_def sorted example_factor_def re_match_token_def verify_href_def
        example_env_def success_def session_token_def)
  have prio_q: "mapE (priority ?fq) question_factors = Inr [1, 5, 3]"
    by (simp add: question_factors_def example_factor_def priority_def)
  have sorted_q: "sorted_reverse (priority ?fq) question_factors =
       Inr [example_factor ''question'' ''https://idp.example/f/question'',
            example_factor ''sms'' ''https://idp.example/f/sms'',
            example_factor ''push'' ''https://idp.example/f/push'']"
    by (simp add: sorted_reverse_def prio_q) (simp add: question_factors_def)
  have run_q: "requests (transcript (snd
         (okta_auth example_env ''idp.example'' ''alice'' ''hunter2'' ?fq None
            (example_world [Returns (json_response (mfa_required question_factors)),
                            Returns (json_response (challenge_waiting ''00xyz'')),
                            Returns (json_response success)] [''123456''])))) =
       [Post ''https://idp.example/api/v1/authn''
          (JsonData (JObj [(''username'', JStr ''alice''), (''password'', JStr ''hunter2'')])),
        Post ''https://idp.example/f/sms'' (JsonData (JObj [(''stateToken'', JStr ''00abc'')])),
        Post ''https://idp.example/f/sms''
          (JsonData (JObj [(''stateToken'', JStr ''00xyz''), (''passCode'', JStr ''123456'')]))]"
    by (simp add: okta_auth_def io_apply post_json_returns example_world_def json_response_def
        mfa_required_def sorted_q example_factor_def re_match_token_def verify_href_def
        example_env_def success_def session_token_def challenge_waiting_def prompt_def)
  have hyps: "server ?w = Returns (json_response (mfa_required three_factors)) # [Returns (json_response success)]"
    "ok (json_response (mfa_required three_factors))"
    "content (json_response (mfa_required three_factors)) = JsonDoc (mfa_required three_factors)"
    "subscript (mfa_required three_factors) ''status'' = Inr (JStr ''MFA_REQUIRED'')"
    "bindE (subscript (mfa_required three_factors) ''_embedded'') (\<lambda>e. subscript e ''factors'')
       = Inr (JList three_factors)"
    by (simp_all add: example_world_def json_response_def mfa_required_def)
  note inst = factors_tried_in_stable_descending_order
      [OF hyps prio, of example_env "''idp.example''" "''alice''" "''hunter2''" "Some ''JBSWY3DP''"]
  have totp: "list_all (passed_over False) [] \<and>
      taken (example_factor ''token:software:totp'' ''https://idp.example/f/totp'')"
    by (simp add: taken_def example_factor_def token_family_def)
  have sms: "list_all (passed_over False) [example_factor ''question'' ''https://idp.example/f/question''] \<and>
      taken (example_factor ''sms'' ''https://idp.example/f/sms'')"
    by (simp add: taken_def passed_over_def example_factor_def token_family_def)
  have question: "list_all (passed_over False) [example_factor ''question'' ''https://idp.example/f/question'']"
    by (simp add: passed_over_def example_factor_def token_family_def)
  note order = inst [THEN conjunct1]
  note first = inst [THEN conjunct2, THEN conjunct1, rule_format]
  note none = inst [THEN conjunct2, THEN conjunct2, THEN conjunct1, rule_format]
  from order first [OF totp] first [OF sms] none [OF question] sorted run sorted_q run_q
  show ?thesis
    by (intro conjI) assumption+
qed
subsection \<open>Push polling\<close>

lemma request_cases:
  assumes "request ev w = (res, w')"
  obtains
    (failed) "isl res" "transcript w' = transcript w @ [ev]"
      "answers w' = answers w" "confirms w' = confirms w" "hid w' = hid w"
  | (responded) resp rest where "server w = Returns resp # rest" "res = Inr resp"
      "w' = w\<lparr>server := rest, transcript := transcript w @ [ev, Received resp]\<rparr>"
  using assms
  by (auto simp: request_def split: list.splits outcome.splits)

lemma post_json_cases:
  assumes "post_json url d w = (res, w')"
  obtains
    (bad_url) "w' = w" "isl res"
  | (failed) u where "url = JStr u" "isl res"
      "transcript w' = transcript w @ [Post u (JsonData d)]"
  | (responded) u resp rest where "url = JStr u" "server w = Returns resp # rest"
      "w' = w\<lparr>server := rest,
               transcript := transcript w @ [Post u (JsonData d), Received resp]\<rparr>"
      "res = (if ok resp then json_of resp else Inl HTTPError)"
proof (cases url)
  case (JStr u)
  obtain res0 w0 where req: "request (Post u (JsonData d)) w = (res0, w0)"
    by (cases "request (Post u (JsonData d)) w")
  from req show ?thesis
  proof (cases rule: request_cases)
    case failed
    with assms req JStr show ?thesis
      by (intro that(2) [of u]) (auto simp: post_json_def s_post_def io_apply isl_def)
  next
    case (responded resp rest)
    with assms req JStr show ?thesis
      by (intro that(3) [of u resp rest])
         (auto simp: post_json_def s_post_def io_apply check_def split: if_splits)
  qed
qed (use assms in \<open>auto simp: post_json_def s_post_def io_apply intro!: that(1)\<close>)

lemma json_of_Inr:
  "json_of resp = Inr j \<longleftrightarrow> content resp = JsonDoc j"
  "Inr j = json_of resp \<longleftrightarrow> content resp = JsonDoc j"
  by (auto simp: json_of_def split: content.splits)

lemma push_loop_cases:
  assumes "push_loop url r ca w = (res, w')"
  obtains
    (no_request) "w' = w" "isl res"
  | (no_response) u tok where "url = JStr u" "subscript r ''stateToken'' = Inr tok" "isl res"
      "transcript w' = transcript w @ [Post u (JsonData (JObj [(''stateToken'', tok)]))]"
  | (last_response) u tok resp where "url = JStr u" "subscript r ''stateToken'' = Inr tok"
      "transcript w' =
         transcript w @ [Post u (JsonData (JObj [(''stateToken'', tok)])), Received resp]"
      "\<forall>j. res = Inr j \<longrightarrow> ok resp \<and> content resp = JsonDoc j"
  | (again) u tok resp r' ca' w1 es where "url = JStr u" "subscript r ''stateToken'' = Inr tok"
      "ok resp" "content resp = JsonDoc r'" "waiting resp"
      "transcript w1 =
         transcript w @ Post u (JsonData (JObj [(''stateToken'', tok)])) # Received resp # es"
      "es = [] \<or> (\<exists>m a. es = [Echo m a])"
      "length (server w1) < length (server w)"
      "push_loop url r' ca' w1 = (res, w')"
proof (cases "subscript r ''stateToken''")
  case (Inl e)
  with assms have "res = Inl e" "w' = w"
    by (auto simp: push_loop.simps [of url r ca w] io_apply)
  then show ?thesis
    by (intro that(1)) simp_all
next
  case (Inr tok)
  let ?d = "JObj [(''stateToken'', tok)]"
  obtain res0 w0 where post: "post_json url ?d w = (res0, w0)"
    by (cases "post_json url ?d w")
  with Inr have step: "bindIO (liftE (subscript r ''stateToken''))
      (\<lambda>tok. post_json url (JObj [(''stateToken'', tok)])) w = (res0, w0)"
    by (simp add: io_apply)
  note unfold = push_loop.simps [of url r ca w]
  from post show ?thesis
  proof (cases rule: post_json_cases)
    case bad_url
    then obtain e where "res0 = Inl e"
      by (auto simp: isl_def)
    with assms step bad_url have "res = Inl e" "w' = w"
      by (simp_all add: unfold)
    then show ?thesis
      by (intro that(1)) simp_all
  next
    case (failed u)
    then obtain e where "res0 = Inl e"
      by (auto simp: isl_def)
    with assms step have "res = Inl e" "w' = w0"
      by (simp_all add: unfold)
    with failed Inr show ?thesis
      by (intro that(2) [of u tok]) simp_all
  next
    case (responded u resp rest)
    show ?thesis
    proof (cases res0)
      case (Inl e)
      with assms step have "res = Inl e" "w' = w0"
        by (simp_all add: unfold)
      with Inr responded show ?thesis
        by (intro that(3) [of u tok resp]) simp_all
    next
      case r': (Inr r')
      with responded have resp: "ok resp" "content resp = JsonDoc r'"
        by (auto simp: json_of_Inr split: if_splits)
      have w0: "transcript w0 = transcript w @ [Post u (JsonData ?d), Received resp]"
        "length (server w0) < length (server w)"
        using responded by simp_all
      define lookup where "lookup =
          bindE (subscript r' ''_embedded'') (\<lambda>e.
          bindE (subscript e ''factor'') (\<lambda>f.
          bindE (subscript f ''_embedded'') (\<lambda>e.
          bindE (subscript e ''challenge'') (\<lambda>c.
          subscript c ''correctAnswer''))))"
      have unfold: "push_loop url r ca w =
          (case subscript r' ''status'' of
             Inl e \<Rightarrow> (Inl e, w0)
           | Inr status \<Rightarrow>
               if status \<noteq> JStr ''MFA_CHALLENGE'' then (Inr r', w0)
               else
                 (case subscript r' ''factorResult'' of
                    Inl e \<Rightarrow> (Inl e, w0)
                  | Inr factorResult \<Rightarrow>
                      if factorResult \<noteq> JStr ''WAITING'' then (Inl AssertionError, w0)
                      else if ca \<noteq> JNull then push_loop url r' ca w0
                      else
                        (case lookup of
                           Inr answer \<Rightarrow>
                             push_loop url r' answer
                               (snd (echo ''Correct 3-number answer is: {}'' [answer] w0))
                         | Inl KeyError \<Rightarrow> push_loop url r' ca w0
                         | Inl e \<Rightarrow> (Inl e, w0))))"
        unfolding lookup_def using step r' by (simp add: unfold)
      consider
        (stop) "w' = w0" "\<forall>j. res = Inr j \<longrightarrow> j = r'"
      | (loop) ca' w1 es where "waiting resp" "push_loop url r' ca' w1 = (res, w')"
          "transcript w1 = transcript w0 @ es" "server w1 = server w0"
          "es = [] \<or> (\<exists>m a. es = [Echo m a])"
      proof (cases "subscript r' ''status'' = Inr (JStr ''MFA_CHALLENGE'') \<and>
                    subscript r' ''factorResult'' = Inr (JStr ''WAITING'') \<and>
                    (ca \<noteq> JNull \<or> lookup = Inl KeyError \<or> (\<exists>a. lookup = Inr a))")
        case False
        with assms have "w' = w0 \<and> (\<forall>j. res = Inr j \<longrightarrow> j = r')"
          unfolding unfold by (auto split: sum.splits if_splits error.splits)
        then show ?thesis
          by (intro stop) auto
      next
        case True
        then have waiting: "waiting resp"
          using resp by (simp add: waiting_def json_of_def)
        show ?thesis
        proof (cases "ca \<noteq> JNull \<or> lookup = Inl KeyError")
          case keep: True
          with True assms have "push_loop url r' ca w0 = (res, w')"
            unfolding unfold by (auto split: if_splits)
          with waiting show ?thesis
            by (intro loop [of ca w0 "[]"]) auto
        next
          case False
          with True obtain a where a: "lookup = Inr a" "ca = JNull"
            by auto
          with True assms
          have "push_loop url r' a (snd (echo ''Correct 3-number answer is: {}'' [a] w0)) = (res, w')"
            unfolding unfold by (auto split: if_splits)
          with waiting show ?thesis
            by (intro loop [of a "snd (echo ''Correct 3-number answer is: {}'' [a] w0)"
                  "[Echo ''Correct 3-number answer is: {}'' [a]]"])
               (auto simp: echo_def)
        qed
      qed
      then show ?thesis
      proof cases
        case stop
        with Inr responded w0 resp show ?thesis
          by (intro that(3) [of u tok resp]) auto
      next
        case (loop ca' w1 es)
        with Inr responded w0 resp show ?thesis
          by (intro that(4) [of u tok resp r' w1 es ca']) auto
      qed
    qed
  qed
qed

lemma push_loop_polls:
  "push_loop url r ca w = (res, w') \<Longrightarrow>
     \<exists>es. transcript w' = transcript w @ es \<and> polls_only_while_waiting es \<and>
          list_all (is_poll url) (requests es)"
proof (induction "length (server w)" arbitrary: r ca w rule: less_induct)
  case less
  from less.prems show ?case
  proof (cases rule: push_loop_cases)
    case no_request
    then show ?thesis by simp
  next
    case (no_response u tok)
    then show ?thesis by (simp add: is_poll_def)
  next
    case (last_response u tok resp)
    then show ?thesis by (simp add: is_poll_def)
  next
    case (again u tok resp r' ca' w1 es)
    from less.hyps [OF again(8) again(9)] obtain es' where es':
      "transcript w' = transcript w1 @ es'" "polls_only_while_waiting es'"
      "list_all (is_poll url) (requests es')"
      by blast
    let ?es = "Post u (JsonData (JObj [(''stateToken'', tok)])) # Received resp # es @ es'"
    from again(6) es'(1) have "transcript w' = transcript w @ ?es"
      by simp
    moreover from again(5,7) es'(2) have "polls_only_while_waiting ?es"
      by auto
    moreover from again(1,7) es'(3) have "list_all (is_poll url) (requests ?es)"
      by (auto simp: is_poll_def)
    ultimately show ?thesis
      by blast
  qed
qed

text \<open>
  C3. When the factor in turn is a push factor, whatever the server answers: every
  response that is followed by a further request has status \<open>MFA_CHALLENGE\<close> and
  factor result \<open>WAITING\<close>, so after the first response that has not, nothing more
  is requested; and each request made is a poll of the factor's verification
  endpoint. The example polls three times: two waiting responses, then \<open>SUCCESS\<close>,
  and the fourth scripted response is never asked for.
\<close>

theorem push_polls_only_while_waiting:
  assumes "subscript factor ''factorType'' = Inr (JStr ''push'')"
  shows "\<exists>es.
     transcript (snd (factor_loop env domain totp_key ignore_webauthn r (factor # rest) w)) =
       transcript w @ es \<and>
     polls_only_while_waiting es \<and>
     (\<forall>e \<in> set (requests es). \<exists>u tok.
        verify_href factor = Inr (JStr u) \<and> e = Post u (JsonData (JObj [(''stateToken'', tok)])))"
proof (cases "verify_href factor")
  case (Inl e)
  with assms show ?thesis
    by (simp add: io_apply)
next
  case (Inr url)
  obtain res w' where run: "push_loop url r JNull w = (res, w')"
    by (cases "push_loop url r JNull w")
  with assms Inr
  have "factor_loop env domain totp_key ignore_webauthn r (factor # rest) w = (res, w')"
    by (simp add: io_apply)
  with push_loop_polls [OF run] Inr show ?thesis
    by (auto simp: list_all_iff is_poll_def)
qed

theorem push_polls_only_while_waiting_witness:
  "subscript (example_factor ''push'' ''https://idp.example/f/push'') ''factorType''
     = Inr (JStr ''push'')
   \<and> (\<exists>es.
        transcript (snd (factor_loop example_env ''idp.example'' None False
           (mfa_required [example_factor ''push'' ''https://idp.example/f/push''])
           (example_factor ''push'' ''https://idp.example/f/push'' # [])
           (example_world [Returns (json_response (challenge_waiting ''00abc'')),
                           Returns (json_response (challenge_waiting ''00abc'')),
                           Returns (json_response success),
                           Returns (json_response (challenge_waiting ''00abc''))] []))) =
          transcript (example_world [Returns (json_response (challenge_waiting ''00abc'')),
                           Returns (json_response (challenge_waiting ''00abc'')),
                           Returns (json_response success),
                           Returns (json_response (challenge_waiting ''00abc''))] []) @ es \<and>
        polls_only_while_waiting es \<and>
        (\<forall>e \<in> set (requests es). \<exists>u tok.
           verify_href (example_factor ''push'' ''https://idp.example/f/push'') = Inr (JStr u) \<and>
           e = Post u (JsonData (JObj [(''stateToken'', tok)]))))
   \<and> factor_loop example_env ''idp.example'' None False
         (mfa_required [example_factor ''push'' ''https://idp.example/f/push''])
         [example_factor ''push'' ''https://idp.example/f/push'']
         (example_world [Returns (json_response (challenge_waiting ''00abc'')),
                         Returns (json_response (challenge_waiting ''00abc'')),
                         Returns (json_response success),
                         Returns (json_response (challenge_waiting ''00abc''))] []) =
       (Inr success,
        \<lparr>server = [Returns (json_response (challenge_waiting ''00abc''))],
         answers = [], confirms = [], hid = [],
         transcript =
           [Post ''https://idp.example/f/push'' (JsonData (JObj [(''stateToken'', JStr ''00abc'')])),
            Received (json_response (challenge_waiting ''00abc'')),
            Post ''https://idp.example/f/push'' (JsonData (JObj [(''stateToken'', JStr ''00abc'')])),
            Received (json_response (challenge_waiting ''00abc'')),
            Post ''https://idp.example/f/push'' (JsonData (JObj [(''stateToken'', JStr ''00abc'')])),
            Received (json_response success)]\<rparr>)"
proof -
  have type: "subscript (example_factor ''push'' ''https://idp.example/f/push'') ''factorType''
     = Inr (JStr ''push'')"
    by (simp add: example_factor_def)
  have run: "factor_loop example_env ''idp.example'' None False
         (mfa_required [example_factor ''push'' ''https://idp.example/f/push''])
         [example_factor ''push'' ''https://idp.example/f/push'']
         (example_world [Returns (json_response (challenge_waiting ''00abc'')),
                         Returns (json_response (challenge_waiting ''00abc'')),
                         Returns (json_response success),
                         Returns (json_response (challenge_waiting ''00abc''))] []) =
       (Inr success,
        \<lparr>server = [Returns (json_response (challenge_waiting ''00abc''))],
         answers = [], confirms = [], hid = [],
         transcript =
           [Post ''https://idp.example/f/push'' (JsonData (JObj [(''stateToken'', JStr ''00abc'')])),
            Received (json_response (challenge_waiting ''00abc'')),
            Post ''https://idp.example/f/push'' (JsonData (JObj [(''stateToken'', JStr ''00abc'')])),
            Received (json_response (challenge_waiting ''00abc'')),
            Post ''https://idp.example/f/push'' (JsonData (JObj [(''stateToken'', JStr ''00abc'')])),
            Received (json_response success)]\<rparr>)"
    by (simp add: io_apply example_factor_def verify_href_def push_loop.simps mfa_required_def
        post_json_returns example_world_def json_response_def challenge_waiting_def success_def)
  from type push_polls_only_while_waiting [OF type] run show ?thesis
    by blast
qed


end
